theory Spec2Isabelle
  imports Main "HOL-Library.Word" "HOL-Library.Monad_Syntax" "HOL-Library.AList"
begin

unbundle bit_operations_syntax

section \<open>Data model\<close>

text \<open>
  The embedding follows \<^verbatim>\<open>src/impl/track.cpp\<close>. A member of the Track object is a field
  of the record \<open>track\<close>; a member function takes the track and returns its result paired
  with the track it leaves behind, so that whatever was written before an exception is
  thrown stays written. A thrown exception is a value \<open>Inl e\<close>.
\<close>

type_synonym byte = "8 word"

text \<open>\<^verbatim>\<open>size_t\<close> on an LP64 target.\<close>

type_synonym size_t = "64 word"

text \<open>
  \<^verbatim>\<open>std::logic_error("Media description mid does not match track mid")\<close> is
  \<open>ConfigurationMismatch\<close>, \<^verbatim>\<open>std::runtime_error("Track is closed")\<close> is \<open>TrackClosed\<close>,
  \<^verbatim>\<open>std::runtime_error("Track is disabled ...")\<close> is \<open>MediaUnsupported\<close>. \<open>MemoryFault\<close>
  stands for an access outside the message buffer (undefined behaviour in C++) and for
  an insertion whose count wrapped around. \<open>NoFreeExtId\<close> is explained at \<open>nextExtId\<close>.
\<close>

datatype error = ConfigurationMismatch | TrackClosed | MediaUnsupported | MemoryFault | NoFreeExtId

subsection \<open>Messages\<close>

text \<open>
  track.cpp tells \<^verbatim>\<open>Message::Control\<close> from every other message type and nothing else;
  \<open>Data\<close> is every other type. A message is its bytes (\<^verbatim>\<open>Message\<close> derives from the byte
  vector), its type and its DSCP marking.
\<close>

datatype message_type = Data | Control

record message =
  bytes :: "byte list"
  msg_type :: message_type
  dscp :: nat

text \<open>The public message form handed to the application: the bytes of the message.\<close>

type_synonym message_variant = "byte list"

subsection \<open>Media description\<close>

datatype direction = SendOnly | RecvOnly | SendRecv | Inactive

text \<open>
  Modelled from the spec: \<^verbatim>\<open>Description::Media\<close> (description.hpp and description.cpp are
  not part of the sources at hand). The spec's data model gives it a mid, a direction,
  a media type and an extension-id table "mapping a well-known extension URI to a small
  integer id". The table is the list of its entries (URI, id); it is read as a mapping,
  by \<open>map_of\<close>, and written as one, by \<open>AList.update\<close>.
\<close>

record media =
  mid :: string
  direction :: direction
  media_type :: string
  extmap :: "(string \<times> nat) list"

text \<open>Modelled from the spec: \<^verbatim>\<open>findExtId\<close>, the table "looked up by well-known URI".\<close>

definition findExtId :: "media \<Rightarrow> string \<Rightarrow> nat option" where
  "findExtId d uri = map_of (extmap d) uri"

text \<open>
  Modelled from the spec: \<^verbatim>\<open>nextExtId\<close>, "the lowest unused id in [1,14]". The spec names
  no result for a table in which all fourteen ids are taken; the model makes that case
  the failure \<open>NoFreeExtId\<close> of \<open>setDescription\<close>, so that no statement below depends on it.
\<close>

definition nextExtId :: "media \<Rightarrow> nat option" where
  "nextExtId d = find (\<lambda>i. i \<notin> snd ` set (extmap d)) [1..<15]"

text \<open>Modelled from the spec: \<^verbatim>\<open>addExtMap({id, uri})\<close>, "add the mapping".\<close>

definition addExtMap :: "media \<Rightarrow> nat \<times> string \<Rightarrow> media" where
  "addExtMap d e = d\<lparr>extmap := AList.update (snd e) (fst e) (extmap d)\<rparr>"

definition sdesMidExtUri :: string where
  "sdesMidExtUri = ''urn:ietf:params:rtp-hdrext:sdes:mid''"

subsection \<open>The receive queue\<close>

text \<open>
  Modelled from the spec: the \<^verbatim>\<open>Queue\<close> template (queue.hpp is not part of the sources at
  hand), after section 4.2 of the spec: an ordered sequence of pending items, a running
  accumulated-size counter, a fixed capacity and a weight function. The constructor call
  in track.cpp passes \<^verbatim>\<open>RECV_QUEUE_LIMIT\<close> and the weight \<^verbatim>\<open>m->size()\<close>.
\<close>

record 'a queue =
  items :: "'a list"
  accumulated :: nat
  capacity :: nat
  weight :: "'a \<Rightarrow> nat"

definition Queue :: "nat \<Rightarrow> ('a \<Rightarrow> nat) \<Rightarrow> 'a queue" where
  "Queue limit f = \<lparr>items = [], accumulated = 0, capacity = limit, weight = f\<rparr>"

text \<open>
  Modelled from the spec: "if accumulatedSize + weight(item) > capacity, reject without
  mutating the queue and return false; otherwise append and increase the accumulated
  size; returns true".
\<close>

definition queue_push :: "'a queue \<Rightarrow> 'a \<Rightarrow> bool \<times> 'a queue" where
  "queue_push q x =
     (if accumulated q + weight q x > capacity q then (False, q)
      else (True, q\<lparr>items := items q @ [x], accumulated := accumulated q + weight q x\<rparr>))"

text \<open>
  Modelled from the spec: "true when the next push of a typical item would be rejected",
  read as: no item of positive weight fits any more.
\<close>

definition queue_full :: "'a queue \<Rightarrow> bool" where
  "queue_full q \<longleftrightarrow> capacity q \<le> accumulated q"

text \<open>
  Modelled from the spec: "removes and returns the front item, decreasing accumulated
  size; empty queue yields no value". The weight is that of the item as it is when it
  is removed.
\<close>

definition queue_pop :: "'a queue \<Rightarrow> ('a \<times> 'a queue) option" where
  "queue_pop q =
     (case items q of
        [] \<Rightarrow> None
      | x # xs \<Rightarrow> Some (x, q\<lparr>items := xs, accumulated := accumulated q - weight q x\<rparr>))"

text \<open>Modelled from the spec: "returns a read-only view of the front item without removal".\<close>

definition queue_peek :: "'a queue \<Rightarrow> 'a option" where
  "queue_peek q = (case items q of [] \<Rightarrow> None | x # xs \<Rightarrow> Some x)"

definition queue_amount :: "'a queue \<Rightarrow> nat" where
  "queue_amount q = accumulated q"

definition queue_size :: "'a queue \<Rightarrow> nat" where
  "queue_size q = length (items q)"

subsection \<open>Collaborators\<close>

text \<open>
  The transform handler is an external capability. Each chain takes the batch and returns
  the batch it leaves together with the packets it passed, in order, to the "send now"
  callback. \<^verbatim>\<open>media(description)\<close> is recorded as the event \<open>EvMedia\<close>.
\<close>

record handler =
  incomingChain :: "message list \<Rightarrow> message list \<times> message list"
  outgoingChain :: "message list \<Rightarrow> message list \<times> message list"

record transport =
  sendMedia :: "message \<Rightarrow> bool"

record configuration =
  mtu :: "size_t option"

text \<open>
  What track.cpp uses and does not define: \<^verbatim>\<open>IsRtcp\<close> (rtp.hpp), the constants
  \<^verbatim>\<open>DEFAULT_MTU\<close> and \<^verbatim>\<open>RECV_QUEUE_LIMIT\<close> (internals.hpp), the build switch
  \<^verbatim>\<open>RTC_ENABLE_MEDIA\<close>, and the value of the default-constructed member
  \<^verbatim>\<open>mMediaDescription\<close> against which the constructor's \<^verbatim>\<open>setDescription\<close> compares.
  They are parameters of the model.
\<close>

record env =
  IsRtcp :: "byte list \<Rightarrow> bool"
  DEFAULT_MTU :: size_t
  RECV_QUEUE_LIMIT :: nat
  RTC_ENABLE_MEDIA :: bool
  default_description :: media

text \<open>
  The calls of \<^verbatim>\<open>triggerClosed\<close>, \<^verbatim>\<open>triggerOpen\<close>, \<^verbatim>\<open>triggerAvailable(n)\<close> and of the
  handler's \<^verbatim>\<open>media(description)\<close>, in the order in which they are made.
\<close>

datatype event = EvClosed | EvOpen | EvAvailable nat | EvMedia media

text \<open>
  A message callback is the function from the delivered message to what the application
  gets to see of it.
\<close>

type_synonym message_callback = "message_variant \<Rightarrow> message_variant list"

record track =
  mPeerConnection :: "configuration option"
  mMediaDescription :: media
  mSdesMidExtId :: "nat option"
  mIsClosed :: bool
  mMediaHandler :: "handler option"
  mDtlsSrtpTransport :: "transport option"
  mRecvQueue :: "message queue"
  messageCallback :: "message_callback option"
  openCallback :: bool
  closedCallback :: bool
  availableCallback :: bool
  events :: "event list"
  sent :: "message list"
  COUNTER_MEDIA_BAD_DIRECTION :: nat
  COUNTER_QUEUE_FULL :: nat

text \<open>
  \<open>mPeerConnection\<close> is what \<^verbatim>\<open>mPeerConnection.lock()\<close> yields: the configuration of the
  peer connection, or nothing once it is gone. \<open>openCallback\<close>, \<open>closedCallback\<close> and
  \<open>availableCallback\<close> say whether a callback is registered. \<open>sent\<close> lists the packets
  handed to \<^verbatim>\<open>sendMedia\<close>. The two log counters are globals of track.cpp.
\<close>

section \<open>Operations of the track\<close>

definition getMediaHandler :: "track \<Rightarrow> handler option" where
  "getMediaHandler t = mMediaHandler t"

definition description :: "track \<Rightarrow> media" where
  "description t = mMediaDescription t"

definition notifyHandler :: "track \<Rightarrow> track" where
  "notifyHandler t =
     (case getMediaHandler t of
        None \<Rightarrow> t
      | Some h \<Rightarrow> t\<lparr>events := events t @ [EvMedia (description t)]\<rparr>)"

definition setDescription :: "track \<Rightarrow> media \<Rightarrow> (error + unit) \<times> track" where
  "setDescription t desc =
     (if mid desc \<noteq> mid (mMediaDescription t) then (Inl ConfigurationMismatch, t)
      else
        (case findExtId desc sdesMidExtUri of
           Some i \<Rightarrow>
             (Inr (), notifyHandler (t\<lparr>mSdesMidExtId := Some i, mMediaDescription := desc\<rparr>))
         | None \<Rightarrow>
             (case nextExtId desc of
                None \<Rightarrow> (Inl NoFreeExtId, t\<lparr>mSdesMidExtId := None\<rparr>)
              | Some i \<Rightarrow>
                  (Inr (), notifyHandler
                     (t\<lparr>mSdesMidExtId := Some i,
                        mMediaDescription := addExtMap desc (i, sdesMidExtUri)\<rparr>)))))"

text \<open>The state of the members before the constructor's body runs.\<close>

definition initial_track :: "env \<Rightarrow> configuration option \<Rightarrow> track" where
  "initial_track E pc =
     \<lparr>mPeerConnection = pc,
      mMediaDescription = default_description E,
      mSdesMidExtId = None,
      mIsClosed = False,
      mMediaHandler = None,
      mDtlsSrtpTransport = None,
      mRecvQueue = Queue (RECV_QUEUE_LIMIT E) (\<lambda>m. length (bytes m)),
      messageCallback = None,
      openCallback = False,
      closedCallback = False,
      availableCallback = False,
      events = [],
      sent = [],
      COUNTER_MEDIA_BAD_DIRECTION = 0,
      COUNTER_QUEUE_FULL = 0\<rparr>"

definition Track :: "env \<Rightarrow> configuration option \<Rightarrow> media \<Rightarrow> (error + unit) \<times> track" where
  "Track E pc desc =
     (case setDescription (initial_track E pc) desc of
        (Inl e, t) \<Rightarrow> (Inl e, t)
      | (Inr u, t) \<Rightarrow>
          (Inr (),
           if direction (mMediaDescription t) = SendOnly
           then t\<lparr>messageCallback := Some (\<lambda>v. [])\<rparr> else t))"

definition maxMessageSize :: "env \<Rightarrow> track \<Rightarrow> size_t" where
  "maxMessageSize E t =
     (let m = (case mPeerConnection t of None \<Rightarrow> None | Some pc \<Rightarrow> mtu pc)
      in (case m of None \<Rightarrow> DEFAULT_MTU E | Some v \<Rightarrow> v) - 12 - 8 - 40)"

text \<open>
  Modelled from the spec: \<^verbatim>\<open>triggerClosed\<close>, \<^verbatim>\<open>triggerOpen\<close>, \<^verbatim>\<open>triggerAvailable\<close> and
  \<^verbatim>\<open>resetCallbacks\<close> of the base class (channel.cpp is not part of the sources at hand):
  a trigger fires its event, \<^verbatim>\<open>resetCallbacks\<close> "clears all registered callbacks".
\<close>

definition triggerClosed :: "track \<Rightarrow> track" where
  "triggerClosed t = t\<lparr>events := events t @ [EvClosed]\<rparr>"

definition triggerOpen :: "track \<Rightarrow> track" where
  "triggerOpen t = t\<lparr>events := events t @ [EvOpen]\<rparr>"

definition triggerAvailable :: "track \<Rightarrow> nat \<Rightarrow> track" where
  "triggerAvailable t n = t\<lparr>events := events t @ [EvAvailable n]\<rparr>"

definition resetCallbacks :: "track \<Rightarrow> track" where
  "resetCallbacks t =
     t\<lparr>messageCallback := None, openCallback := False,
       closedCallback := False, availableCallback := False\<rparr>"

definition setMediaHandler :: "track \<Rightarrow> handler option \<Rightarrow> track" where
  "setMediaHandler t h =
     (let t' = t\<lparr>mMediaHandler := h\<rparr>
      in case h of
           None \<Rightarrow> t'
         | Some x \<Rightarrow> t'\<lparr>events := events t' @ [EvMedia (description t')]\<rparr>)"

text \<open>\<^verbatim>\<open>mIsClosed.exchange(true)\<close> stores true and yields the value held before.\<close>

definition close :: "track \<Rightarrow> track" where
  "close t =
     (let was = mIsClosed t;
          t1 = t\<lparr>mIsClosed := True\<rparr>;
          t2 = (if \<not> was then triggerClosed t1 else t1)
      in resetCallbacks (setMediaHandler t2 None))"

text \<open>
  Modelled from the spec: the two overloads of \<^verbatim>\<open>to_variant\<close> (message.hpp is not part of
  the sources at hand), "a Control packet is copied (never moved)", "a Data packet is
  moved". Both yield the bytes of the message. The overload that takes the message by
  rvalue reference moves the byte vector out of it, and a vector that has been moved
  from is empty: \<open>moved_from\<close> is the message that is left.
\<close>

definition to_variant :: "message \<Rightarrow> message_variant" where
  "to_variant m = bytes m"

definition moved_from :: "message \<Rightarrow> message" where
  "moved_from m = m\<lparr>bytes := []\<rparr>"

text \<open>
  In \<open>receive\<close> the message moved from has left the queue already. In \<open>peek\<close> the local
  \<^verbatim>\<open>message\<close> is a copy of the shared pointer at the front of the queue, so the object
  moved from is the one the queue still holds.
\<close>

definition receive :: "track \<Rightarrow> message_variant option \<times> track" where
  "receive t =
     (case queue_pop (mRecvQueue t) of
        None \<Rightarrow> (None, t)
      | Some (message, q) \<Rightarrow>
          (if msg_type message = Control
           then (Some (to_variant message), t\<lparr>mRecvQueue := q\<rparr>)
           else (Some (to_variant message), t\<lparr>mRecvQueue := q\<rparr>)))"

definition peek :: "track \<Rightarrow> message_variant option \<times> track" where
  "peek t =
     (case queue_peek (mRecvQueue t) of
        None \<Rightarrow> (None, t)
      | Some message \<Rightarrow>
          (if msg_type message = Control
           then (Some (to_variant message), t)
           else (Some (to_variant message),
                 t\<lparr>mRecvQueue := (mRecvQueue t)
                      \<lparr>items := moved_from message # tl (items (mRecvQueue t))\<rparr>\<rparr>)))"

definition availableAmount :: "track \<Rightarrow> nat" where
  "availableAmount t = queue_amount (mRecvQueue t)"

definition isOpen :: "env \<Rightarrow> track \<Rightarrow> bool" where
  "isOpen E t =
     (if RTC_ENABLE_MEDIA E then \<not> mIsClosed t \<and> mDtlsSrtpTransport t \<noteq> None else False)"

definition isClosed :: "track \<Rightarrow> bool" where
  "isClosed t = mIsClosed t"

definition open_track :: "track \<Rightarrow> transport option \<Rightarrow> track" where
  "open_track t tr =
     (let t' = t\<lparr>mDtlsSrtpTransport := tr\<rparr>
      in if \<not> mIsClosed t' then triggerOpen t' else t')"

definition transportSend :: "env \<Rightarrow> track \<Rightarrow> message \<Rightarrow> (error + bool) \<times> track" where
  "transportSend E t message =
     (if RTC_ENABLE_MEDIA E then
        (case mDtlsSrtpTransport t of
           None \<Rightarrow> (Inl TrackClosed, t)
         | Some tr \<Rightarrow>
             (let m = message\<lparr>dscp :=
                        (if media_type (mMediaDescription t) = ''audio'' then 46 else 36)\<rparr>
              in (Inr (sendMedia tr m), t\<lparr>sent := sent t @ [m]\<rparr>)))
      else (Inl MediaUnsupported, t))"

text \<open>
  The "send now" callback \<^verbatim>\<open>[this](message_ptr m) { transportSend(m); }\<close>, applied to the
  packets the handler passed to it; an exception of \<open>transportSend\<close> ends the chain.
\<close>

fun sendNow :: "env \<Rightarrow> track \<Rightarrow> message list \<Rightarrow> (error + unit) \<times> track" where
  "sendNow E t [] = (Inr (), t)"
| "sendNow E t (m # ms) =
     (case transportSend E t m of
        (Inl e, t') \<Rightarrow> (Inl e, t')
      | (Inr r, t') \<Rightarrow> sendNow E t' ms)"

text \<open>The loop \<^verbatim>\<open>for (auto &m : messages)\<close> of \<open>incoming\<close>.\<close>

fun admit :: "track \<Rightarrow> message list \<Rightarrow> track" where
  "admit t [] = t"
| "admit t (m # ms) =
     (if queue_full (mRecvQueue t)
      then t\<lparr>COUNTER_QUEUE_FULL := COUNTER_QUEUE_FULL t + 1\<rparr>
      else
        (let t1 = t\<lparr>mRecvQueue := snd (queue_push (mRecvQueue t) m)\<rparr>
         in admit (triggerAvailable t1 (queue_size (mRecvQueue t1))) ms))"

text \<open>What \<open>incoming\<close> does with a packet that has passed the check of the direction.\<close>

definition incomingPermitted :: "env \<Rightarrow> track \<Rightarrow> message \<Rightarrow> (error + unit) \<times> track" where
  "incomingPermitted E t message =
     (case getMediaHandler t of
        None \<Rightarrow> (Inr (), admit t [message])
      | Some h \<Rightarrow>
          (case incomingChain h [message] of
             (messages, now) \<Rightarrow>
               (case sendNow E t now of
                  (Inl e, t') \<Rightarrow> (Inl e, t')
                | (Inr u, t') \<Rightarrow> (Inr (), admit t' messages))))"

definition incoming :: "env \<Rightarrow> track \<Rightarrow> message option \<Rightarrow> (error + unit) \<times> track" where
  "incoming E t msg =
     (case msg of
        None \<Rightarrow> (Inr (), t)
      | Some message \<Rightarrow>
          (let dir = direction (mMediaDescription t)
           in if (dir = SendOnly \<or> dir = Inactive) \<and> msg_type message \<noteq> Control
              then (Inr (),
                    t\<lparr>COUNTER_MEDIA_BAD_DIRECTION := COUNTER_MEDIA_BAD_DIRECTION t + 1\<rparr>)
              else incomingPermitted E t message))"

text \<open>The loop \<^verbatim>\<open>for (auto &m : messages) ret = transportSend(std::move(m));\<close>.\<close>

fun sendBatch :: "env \<Rightarrow> track \<Rightarrow> bool \<Rightarrow> message list \<Rightarrow> (error + bool) \<times> track" where
  "sendBatch E t ret [] = (Inr ret, t)"
| "sendBatch E t ret (m # ms) =
     (case transportSend E t m of
        (Inl e, t') \<Rightarrow> (Inl e, t')
      | (Inr r, t') \<Rightarrow> sendBatch E t' r ms)"

text \<open>
  The message as \<open>outgoing\<close> sees it after
  \<^verbatim>\<open>if (!handler && IsRtcp(*message)) message->type = Message::Control;\<close>.
\<close>

definition reclassified :: "env \<Rightarrow> track \<Rightarrow> message \<Rightarrow> message" where
  "reclassified E t message =
     (case getMediaHandler t of
        None \<Rightarrow> (if IsRtcp E (bytes message) then message\<lparr>msg_type := Control\<rparr> else message)
      | Some h \<Rightarrow> message)"

text \<open>What \<open>outgoing\<close> does with a packet that has passed the check of the direction.\<close>

definition outgoingPermitted :: "env \<Rightarrow> track \<Rightarrow> message \<Rightarrow> (error + bool) \<times> track" where
  "outgoingPermitted E t message =
     (case getMediaHandler t of
        Some h \<Rightarrow>
          (case outgoingChain h [message] of
             (messages, now) \<Rightarrow>
               (case sendNow E t now of
                  (Inl e, t') \<Rightarrow> (Inl e, t')
                | (Inr u, t') \<Rightarrow> sendBatch E t' False messages))
      | None \<Rightarrow> transportSend E t message)"

definition outgoing :: "env \<Rightarrow> track \<Rightarrow> message \<Rightarrow> (error + bool) \<times> track" where
  "outgoing E t msg =
     (if mIsClosed t then (Inl TrackClosed, t)
      else
        (let message = reclassified E t msg;
             dir = direction (mMediaDescription t)
         in if (dir = RecvOnly \<or> dir = Inactive) \<and> msg_type message \<noteq> Control
            then (Inr False,
                  t\<lparr>COUNTER_MEDIA_BAD_DIRECTION := COUNTER_MEDIA_BAD_DIRECTION t + 1\<rparr>)
            else outgoingPermitted E t message))"

subsection \<open>Tagging with the mid\<close>

text \<open>
  Modelled from the spec: the accessors of \<^verbatim>\<open>RtpHeader\<close> and \<^verbatim>\<open>RtpExtensionHeader\<close>
  (rtp.hpp is not part of the sources at hand), after the wire format the spec names:
  the RTP fixed header of twelve bytes, whose first byte holds the "extension present"
  flag and the count of four-byte CSRC entries that follow the fixed header, and the
  extension block, which starts with the profile id and the length in 32-bit words, two
  bytes each in network order, followed by the one-byte-header elements. The structured
  views of the source are casts of the buffer's address; here a view is the buffer
  together with the offset it starts at, and an access outside the buffer is \<open>None\<close>.
\<close>

definition sizeof_RtpHeader :: nat where
  "sizeof_RtpHeader = 12"

definition sizeof_RtpExtensionHeader :: nat where
  "sizeof_RtpExtensionHeader = 4"

definition header_extension :: "byte list \<Rightarrow> bool option" where
  "header_extension bs = (case bs of [] \<Rightarrow> None | b # r \<Rightarrow> Some (bit b 4))"

definition header_getSize :: "byte list \<Rightarrow> nat option" where
  "header_getSize bs =
     (case bs of [] \<Rightarrow> None | b # r \<Rightarrow> Some (sizeof_RtpHeader + 4 * unat (b AND 0x0F)))"

definition header_setExtension :: "byte list \<Rightarrow> bool \<Rightarrow> byte list option" where
  "header_setExtension bs e =
     (case bs of
        [] \<Rightarrow> None
      | b # r \<Rightarrow> Some (((b AND NOT 0x10) OR (if e then 0x10 else 0)) # r))"

definition read16 :: "byte list \<Rightarrow> nat \<Rightarrow> nat option" where
  "read16 bs off =
     (if off + 2 \<le> length bs then Some (256 * unat (bs ! off) + unat (bs ! (off + 1)))
      else None)"

definition write16 :: "byte list \<Rightarrow> nat \<Rightarrow> nat \<Rightarrow> byte list option" where
  "write16 bs off v =
     (if off + 2 \<le> length bs
      then Some (bs[off := of_nat (v mod 65536 div 256), off + 1 := of_nat (v mod 256)])
      else None)"

text \<open>\<^verbatim>\<open>message->insert(message->begin() + pos, n, byte(0))\<close>.\<close>

definition vector_insert :: "byte list \<Rightarrow> nat \<Rightarrow> nat \<Rightarrow> byte list option" where
  "vector_insert bs pos n =
     (if pos \<le> length bs then Some (take pos bs @ replicate n 0 @ drop pos bs) else None)"

text \<open>
  Modelled from the spec: \<^verbatim>\<open>writeOneByteHeader(offset, id, value, size)\<close> on the extension
  block that starts at \<open>ext\<close>: "a one-byte-header element (id, length, value)", whose
  first byte carries the id in its high and the length minus one in its low four bits,
  written at \<open>offset\<close> of the block's body; "element length fields in the one-byte
  encoding top out at 16 bytes of value".
\<close>

definition writeOneByteHeader ::
  "byte list \<Rightarrow> nat \<Rightarrow> nat \<Rightarrow> nat \<Rightarrow> byte list \<Rightarrow> byte list option" where
  "writeOneByteHeader bs ext offset ident val =
     do {
       headerLength \<leftarrow> read16 bs (ext + 2);
       (let n = length val; pos = ext + sizeof_RtpExtensionHeader + offset
        in if ident = 0 \<or> ident > 14 \<or> n = 0 \<or> n > 16 \<or> offset + 1 + n > headerLength * 4
           then Some bs
           else if pos + 1 + n \<le> length bs
           then Some (take pos bs
                      @ [push_bit 4 (of_nat ident) OR (if n \<noteq> 1 then of_nat (n - 1) else 0)]
                      @ val @ drop (pos + 1 + n) bs)
           else None)
     }"

text \<open>
  The body of \<^verbatim>\<open>if(message->size() < sizeof(RtpHeader))\<close> in \<open>tagWithMid\<close>, on the bytes
  of the message. \<open>hsz\<close> is \<^verbatim>\<open>header->getSize()\<close>, the offset of the extension block.
\<close>

definition tagBody :: "string \<Rightarrow> nat \<Rightarrow> byte list \<Rightarrow> byte list option" where
  "tagBody m extId bs =
     do {
       ext \<leftarrow> header_extension bs;
       hsz \<leftarrow> header_getSize bs;
       (let sdesMidExtLength = 1 + length m; val = map of_char m
        in if ext then
             do {
               profile \<leftarrow> read16 bs hsz;
               if profile \<noteq> 0xbede then Some bs
               else
                 do {
                   extHeaderLength \<leftarrow> read16 bs (hsz + 2);
                   (let newExtHeaderLength = (extHeaderLength + sdesMidExtLength + 3) div 4
                    in if newExtHeaderLength < extHeaderLength then None
                       else
                         do {
                           bs1 \<leftarrow> vector_insert bs hsz (newExtHeaderLength - extHeaderLength);
                           bs2 \<leftarrow> write16 bs1 (hsz + 2) newExtHeaderLength;
                           writeOneByteHeader bs2 hsz extHeaderLength (extId mod 256) val
                         })
                 }
             }
           else
             (let extHeaderLength = (sdesMidExtLength + 3) div 4
              in do {
                   bs1 \<leftarrow> vector_insert bs hsz (sizeof_RtpExtensionHeader + extHeaderLength);
                   bs2 \<leftarrow> header_setExtension bs1 True;
                   bs3 \<leftarrow> write16 bs2 hsz 0xbede;
                   bs4 \<leftarrow> write16 bs3 (hsz + 2) extHeaderLength;
                   writeOneByteHeader bs4 hsz 0 (extId mod 256) val
                 }))
     }"

definition tagWithMid :: "env \<Rightarrow> track \<Rightarrow> message \<Rightarrow> error + message" where
  "tagWithMid E t message =
     (if IsRtcp E (bytes message) then Inr message
      else
        (case mSdesMidExtId t of
           None \<Rightarrow> Inr message
         | Some extId \<Rightarrow>
             (if length (bytes message) < sizeof_RtpHeader then
                (case tagBody (mid (mMediaDescription t)) extId (bytes message) of
                   None \<Rightarrow> Inl MemoryFault
                 | Some bs \<Rightarrow> Inr (message\<lparr>bytes := bs\<rparr>))
              else Inr message)))"

section \<open>Runs of the track\<close>

text \<open>The calls a track can receive, and the track that a sequence of them leaves.\<close>

datatype operation =
    OpSetDescription media
  | OpClose
  | OpReceive
  | OpPeek
  | OpOpen "transport option"
  | OpIncoming "message option"
  | OpOutgoing message
  | OpSetMediaHandler "handler option"

fun step :: "env \<Rightarrow> track \<Rightarrow> operation \<Rightarrow> track" where
  "step E t (OpSetDescription d) = snd (setDescription t d)"
| "step E t OpClose = close t"
| "step E t OpReceive = snd (receive t)"
| "step E t OpPeek = snd (peek t)"
| "step E t (OpOpen tr) = open_track t tr"
| "step E t (OpIncoming m) = snd (incoming E t m)"
| "step E t (OpOutgoing m) = snd (outgoing E t m)"
| "step E t (OpSetMediaHandler h) = setMediaHandler t h"

definition run :: "env \<Rightarrow> track \<Rightarrow> operation list \<Rightarrow> track" where
  "run E t ops = foldl (step E) t ops"

section \<open>The specification's terms\<close>

text \<open>The table of section 4.4 of the specification.\<close>

datatype flow = Incoming | Outgoing

fun permits :: "direction \<Rightarrow> message_type \<Rightarrow> flow \<Rightarrow> bool" where
  "permits d Control f = True"
| "permits SendOnly Data Incoming = False"
| "permits SendOnly Data Outgoing = True"
| "permits RecvOnly Data Incoming = True"
| "permits RecvOnly Data Outgoing = False"
| "permits Inactive Data f = False"
| "permits SendRecv Data f = True"

text \<open>
  The fixed overhead in the specification's words: the RTP fixed header, the UDP header
  and the IPv6 header.
\<close>

definition rtpFixedHeaderSize :: size_t where
  "rtpFixedHeaderSize = 12"

definition udpHeaderSize :: size_t where
  "udpHeaderSize = 8"

definition ipv6HeaderSize :: size_t where
  "ipv6HeaderSize = 40"

definition fixedOverhead :: size_t where
  "fixedOverhead = rtpFixedHeaderSize + udpHeaderSize + ipv6HeaderSize"

definition configuredMtu :: "track \<Rightarrow> size_t option" where
  "configuredMtu t = (case mPeerConnection t of None \<Rightarrow> None | Some pc \<Rightarrow> mtu pc)"

text \<open>
  The profile id of the extension block of a packet: present when the header's flag is
  set and the block's first two bytes lie inside the packet.
\<close>

definition extensionProfile :: "byte list \<Rightarrow> nat option" where
  "extensionProfile bs =
     do {
       ext \<leftarrow> header_extension bs;
       hsz \<leftarrow> header_getSize bs;
       if ext then read16 bs hsz else None
     }"

text \<open>How often the "closed" event has fired.\<close>

definition closedEvents :: "track \<Rightarrow> nat" where
  "closedEvents t = count_list (events t) EvClosed"

text \<open>
  What a successful \<open>setDescription\<close> of \<open>desc\<close> leaves in the track: the mid extension
  is mapped, to one id, which the track remembers; an id that \<open>desc\<close> brought is kept
  and the description stored is \<open>desc\<close>; otherwise the id is the lowest one from 1 to 14
  that no entry of \<open>desc\<close> uses and the description stored is \<open>desc\<close> with that entry
  added; and a table with one entry per URI stays one, with one entry for the mid.
\<close>

definition sdesMidMapped :: "media \<Rightarrow> track \<Rightarrow> bool" where
  "sdesMidMapped desc t' \<longleftrightarrow>
     findExtId (description t') sdesMidExtUri = mSdesMidExtId t'
     \<and> (\<exists>!i. findExtId (description t') sdesMidExtUri = Some i)
     \<and> (case findExtId desc sdesMidExtUri of
          Some i \<Rightarrow> mSdesMidExtId t' = Some i \<and> description t' = desc
        | None \<Rightarrow>
            (\<exists>i. mSdesMidExtId t' = Some i \<and> 1 \<le> i \<and> i \<le> 14
                 \<and> i \<notin> snd ` set (extmap desc)
                 \<and> (\<forall>j. 1 \<le> j \<and> j < i \<longrightarrow> j \<in> snd ` set (extmap desc))
                 \<and> description t' = addExtMap desc (i, sdesMidExtUri)))
     \<and> (distinct (map fst (extmap desc)) \<longrightarrow>
          distinct (map fst (extmap (description t')))
          \<and> length (filter (\<lambda>e. fst e = sdesMidExtUri) (extmap (description t'))) = 1)"

section \<open>Concrete inputs\<close>

text \<open>
  An instance of the parameters, on which the model is evaluated: \<open>IsRtcp\<close> by the
  payload types 64 to 95 that an RTP session leaves to RTCP, in a packet of at least
  eight bytes.
\<close>

definition sample_IsRtcp :: "byte list \<Rightarrow> bool" where
  "sample_IsRtcp bs \<longleftrightarrow>
     8 \<le> length bs \<and> 64 \<le> unat (bs ! 1 AND 0x7F) \<and> unat (bs ! 1 AND 0x7F) \<le> 95"

definition sample_media :: media where
  "sample_media =
     \<lparr>mid = ''0'', direction = SendRecv, media_type = ''video'', extmap = []\<rparr>"

definition sample_env :: env where
  "sample_env =
     \<lparr>IsRtcp = sample_IsRtcp, DEFAULT_MTU = 1280, RECV_QUEUE_LIMIT = 3,
      RTC_ENABLE_MEDIA = True, default_description = sample_media\<rparr>"

text \<open>The track that the constructor leaves for \<open>sample_media\<close>: the mid is given id 1.\<close>

definition sample_track :: track where
  "sample_track = snd (Track sample_env None sample_media)"

text \<open>
  An RTP packet (version 2, payload type 96) with no extension block: the fixed header
  of twelve bytes and a payload of two.
\<close>

definition sample_rtp :: message where
  "sample_rtp =
     \<lparr>bytes = [0x80, 0x60, 0, 1, 0, 0, 0, 0, 0, 0, 0, 1, 0xCA, 0xFE],
      msg_type = Data, dscp = 0\<rparr>"

text \<open>
  The same packet with an extension block of profile \<open>0xBEDE\<close>, one word long, that
  holds one element: id 2 with the two bytes \<open>0xAA 0xBB\<close>, and a byte of padding.
\<close>

definition sample_rtp_bede :: message where
  "sample_rtp_bede =
     \<lparr>bytes = [0x90, 0x60, 0, 1, 0, 0, 0, 0, 0, 0, 0, 1,
               0xBE, 0xDE, 0, 1, 0x21, 0xAA, 0xBB, 0, 0xCA, 0xFE],
      msg_type = Data, dscp = 0\<rparr>"

text \<open>The same packet with an extension block of the two-byte-header profile \<open>0x1000\<close>.\<close>

definition sample_rtp_foreign :: message where
  "sample_rtp_foreign =
     \<lparr>bytes = [0x90, 0x60, 0, 1, 0, 0, 0, 0, 0, 0, 0, 1,
               0x10, 0x00, 0, 1, 2, 2, 0xAA, 0xBB, 0xCA, 0xFE],
      msg_type = Data, dscp = 0\<rparr>"

text \<open>An RTCP receiver report of eight bytes, as a Control packet.\<close>

definition sample_rtcp :: message where
  "sample_rtcp = \<lparr>bytes = [0x80, 0xC9, 0, 1, 0, 0, 0, 1], msg_type = Control, dscp = 0\<rparr>"

text \<open>A Data packet of three bytes, each of them \<open>b\<close>.\<close>

definition pkt :: "byte \<Rightarrow> message" where
  "pkt b = \<lparr>bytes = [b, b, b], msg_type = Data, dscp = 0\<rparr>"

text \<open>The concrete track after one Data packet has come in.\<close>

definition sample_track_one :: track where
  "sample_track_one = snd (incoming sample_env sample_track (Some (pkt 7)))"

text \<open>A description whose table uses the ids 1, 2 and 4, and one that maps the mid to 5.\<close>

definition sample_media_gap :: media where
  "sample_media_gap =
     sample_media\<lparr>extmap := [(''urn:a'', 1), (''urn:b'', 2), (''urn:c'', 4)]\<rparr>"

definition sample_media_mapped :: media where
  "sample_media_mapped = sample_media\<lparr>extmap := [(''urn:a'', 1), (sdesMidExtUri, 5)]\<rparr>"

text \<open>A Data packet with the given bytes.\<close>

definition data_pkt :: "byte list \<Rightarrow> message" where
  "data_pkt bs = \<lparr>bytes = bs, msg_type = Data, dscp = 0\<rparr>"

text \<open>
  A handler whose incoming chain replaces the batch by packets of two, two and one
  bytes.
\<close>

definition splitting :: handler where
  "splitting = \<lparr>incomingChain = (\<lambda>ms. ([data_pkt [1, 1], data_pkt [2, 2], data_pkt [3]], [])),
                 outgoingChain = (\<lambda>ms. (ms, []))\<rparr>"

text \<open>A handler whose incoming chain replaces the batch by three packets.\<close>

definition tripling :: handler where
  "tripling = \<lparr>incomingChain = (\<lambda>ms. ([pkt 1, pkt 2, pkt 3], [])),
               outgoingChain = (\<lambda>ms. (ms, []))\<rparr>"

section \<open>What the loops and the sends leave alone\<close>

lemma transportSend_frame:
  "COUNTER_MEDIA_BAD_DIRECTION (snd (transportSend E t m)) = COUNTER_MEDIA_BAD_DIRECTION t"
  "COUNTER_QUEUE_FULL (snd (transportSend E t m)) = COUNTER_QUEUE_FULL t"
  "mIsClosed (snd (transportSend E t m)) = mIsClosed t"
  "events (snd (transportSend E t m)) = events t"
  "mRecvQueue (snd (transportSend E t m)) = mRecvQueue t"
  by (simp_all add: transportSend_def Let_def split: option.splits)

lemma sendNow_frame:
  "COUNTER_MEDIA_BAD_DIRECTION (snd (sendNow E t ms)) = COUNTER_MEDIA_BAD_DIRECTION t
   \<and> COUNTER_QUEUE_FULL (snd (sendNow E t ms)) = COUNTER_QUEUE_FULL t
   \<and> mIsClosed (snd (sendNow E t ms)) = mIsClosed t
   \<and> events (snd (sendNow E t ms)) = events t
   \<and> mRecvQueue (snd (sendNow E t ms)) = mRecvQueue t"
proof (induction ms arbitrary: t)
  case Nil
  show ?case by simp
next
  case (Cons m ms)
  obtain r t' where ts: "transportSend E t m = (r, t')"
    by (cases "transportSend E t m")
  have fr: "COUNTER_MEDIA_BAD_DIRECTION t' = COUNTER_MEDIA_BAD_DIRECTION t"
    "COUNTER_QUEUE_FULL t' = COUNTER_QUEUE_FULL t"
    "mIsClosed t' = mIsClosed t" "events t' = events t" "mRecvQueue t' = mRecvQueue t"
    using transportSend_frame [of E t m] ts by simp_all
  show ?case
  proof (cases r)
    case (Inl e)
    with ts fr show ?thesis by simp
  next
    case (Inr b)
    with ts fr Cons.IH [of t'] show ?thesis by simp
  qed
qed

lemma sendBatch_frame:
  "COUNTER_MEDIA_BAD_DIRECTION (snd (sendBatch E t ret ms)) = COUNTER_MEDIA_BAD_DIRECTION t
   \<and> COUNTER_QUEUE_FULL (snd (sendBatch E t ret ms)) = COUNTER_QUEUE_FULL t
   \<and> mIsClosed (snd (sendBatch E t ret ms)) = mIsClosed t
   \<and> events (snd (sendBatch E t ret ms)) = events t
   \<and> mRecvQueue (snd (sendBatch E t ret ms)) = mRecvQueue t"
proof (induction ms arbitrary: t ret)
  case Nil
  show ?case by simp
next
  case (Cons m ms)
  obtain r t' where ts: "transportSend E t m = (r, t')"
    by (cases "transportSend E t m")
  have fr: "COUNTER_MEDIA_BAD_DIRECTION t' = COUNTER_MEDIA_BAD_DIRECTION t"
    "COUNTER_QUEUE_FULL t' = COUNTER_QUEUE_FULL t"
    "mIsClosed t' = mIsClosed t" "events t' = events t" "mRecvQueue t' = mRecvQueue t"
    using transportSend_frame [of E t m] ts by simp_all
  show ?case
  proof (cases r)
    case (Inl e)
    with ts fr show ?thesis by simp
  next
    case (Inr b)
    with ts fr Cons.IH [of t' b] show ?thesis by simp
  qed
qed

lemma admit_frame:
  "COUNTER_MEDIA_BAD_DIRECTION (admit t ms) = COUNTER_MEDIA_BAD_DIRECTION t
   \<and> mIsClosed (admit t ms) = mIsClosed t
   \<and> closedEvents (admit t ms) = closedEvents t"
  by (induction t ms rule: admit.induct)
     (simp_all add: Let_def triggerAvailable_def closedEvents_def)

lemma incomingPermitted_frame:
  "COUNTER_MEDIA_BAD_DIRECTION (snd (incomingPermitted E t m)) = COUNTER_MEDIA_BAD_DIRECTION t
   \<and> mIsClosed (snd (incomingPermitted E t m)) = mIsClosed t
   \<and> closedEvents (snd (incomingPermitted E t m)) = closedEvents t"
proof (cases "getMediaHandler t")
  case None
  then show ?thesis
    using admit_frame [of t "[m]"] by (simp add: incomingPermitted_def del: admit.simps)
next
  case (Some h)
  obtain messages now where ch: "incomingChain h [m] = (messages, now)"
    by (cases "incomingChain h [m]")
  obtain r t' where sn: "sendNow E t now = (r, t')"
    by (cases "sendNow E t now")
  have fr: "COUNTER_MEDIA_BAD_DIRECTION t' = COUNTER_MEDIA_BAD_DIRECTION t"
    "mIsClosed t' = mIsClosed t" "events t' = events t"
    using sendNow_frame [of E t now] sn by simp_all
  show ?thesis
    using Some ch sn fr admit_frame [of t' messages]
    by (cases r) (simp_all add: incomingPermitted_def closedEvents_def)
qed

lemma outgoingPermitted_frame:
  "COUNTER_MEDIA_BAD_DIRECTION (snd (outgoingPermitted E t m)) = COUNTER_MEDIA_BAD_DIRECTION t
   \<and> mIsClosed (snd (outgoingPermitted E t m)) = mIsClosed t
   \<and> closedEvents (snd (outgoingPermitted E t m)) = closedEvents t"
proof (cases "getMediaHandler t")
  case None
  then show ?thesis
    by (simp add: outgoingPermitted_def transportSend_frame closedEvents_def)
next
  case (Some h)
  obtain messages now where ch: "outgoingChain h [m] = (messages, now)"
    by (cases "outgoingChain h [m]")
  obtain r t' where sn: "sendNow E t now = (r, t')"
    by (cases "sendNow E t now")
  have fr: "COUNTER_MEDIA_BAD_DIRECTION t' = COUNTER_MEDIA_BAD_DIRECTION t"
    "mIsClosed t' = mIsClosed t" "events t' = events t"
    using sendNow_frame [of E t now] sn by simp_all
  show ?thesis
    using Some ch sn fr sendBatch_frame [of E t' False messages]
    by (cases r) (simp_all add: outgoingPermitted_def closedEvents_def)
qed

lemma gate_incoming:
  "((dir = SendOnly \<or> dir = Inactive) \<and> k \<noteq> Control) = (\<not> permits dir k Incoming)"
  by (cases dir; cases k) simp_all

lemma gate_outgoing:
  "((dir = RecvOnly \<or> dir = Inactive) \<and> k \<noteq> Control) = (\<not> permits dir k Outgoing)"
  by (cases dir; cases k) simp_all

section \<open>The concrete track\<close>

lemma nextExtId_sample: "nextExtId sample_media = Some 1"
  by (simp add: nextExtId_def sample_media_def upt_rec)

lemma sample_track_eq:
  "sample_track =
     \<lparr>mPeerConnection = None,
      mMediaDescription = sample_media\<lparr>extmap := [(sdesMidExtUri, 1)]\<rparr>,
      mSdesMidExtId = Some 1,
      mIsClosed = False,
      mMediaHandler = None,
      mDtlsSrtpTransport = None,
      mRecvQueue = Queue 3 (\<lambda>m. length (bytes m)),
      messageCallback = None,
      openCallback = False,
      closedCallback = False,
      availableCallback = False,
      events = [],
      sent = [],
      COUNTER_MEDIA_BAD_DIRECTION = 0,
      COUNTER_QUEUE_FULL = 0\<rparr>"
proof -
  have "findExtId sample_media sdesMidExtUri = None"
    by (simp add: findExtId_def sample_media_def)
  then have "setDescription (initial_track sample_env None) sample_media =
      (Inr (), (initial_track sample_env None)
         \<lparr>mSdesMidExtId := Some 1,
            mMediaDescription := addExtMap sample_media (1, sdesMidExtUri)\<rparr>)"
    by (simp add: setDescription_def nextExtId_sample notifyHandler_def getMediaHandler_def
        initial_track_def sample_env_def)
  then show ?thesis
    by (simp add: sample_track_def Track_def initial_track_def addExtMap_def sample_env_def
        sample_media_def)
qed

lemma sample_track_fields:
  "mIsClosed sample_track = False"
  "getMediaHandler sample_track = None"
  "COUNTER_MEDIA_BAD_DIRECTION sample_track = 0"
  by (simp_all add: sample_track_eq getMediaHandler_def)

lemma sample_IsRtcp_values:
  "sample_IsRtcp (bytes sample_rtcp)"
  "\<not> sample_IsRtcp (bytes sample_rtp)"
  "\<not> sample_IsRtcp (bytes (pkt b))"
  by (simp_all add: sample_IsRtcp_def sample_rtcp_def sample_rtp_def pkt_def)

section \<open>The direction gate\<close>

text \<open>
  C3. The check of the direction in \<open>incoming\<close> and in \<open>outgoing\<close> is the table of
  section 4.4: a packet the table denies is dropped, the bad-direction counter goes up by
  one and nothing else of the track changes (the queue is untouched, \<open>outgoing\<close> returns
  false); a packet the table permits goes on to the handler chain and the queue or the
  transport, and the counter stays as it is. The table permits a Control packet in both
  flows whatever the direction, an incoming Data packet unless the direction is SendOnly
  or Inactive, an outgoing Data packet unless it is RecvOnly or Inactive. The kind of an
  outgoing packet is taken after \<open>outgoing\<close> has reclassified it: with no handler
  attached, a packet that \<open>IsRtcp\<close> accepts counts as Control.
\<close>

theorem direction_gate_matches_table:
  "incoming E t (Some m) =
     (if permits (direction (description t)) (msg_type m) Incoming
      then incomingPermitted E t m
      else (Inr (), t\<lparr>COUNTER_MEDIA_BAD_DIRECTION := COUNTER_MEDIA_BAD_DIRECTION t + 1\<rparr>))
   \<and> COUNTER_MEDIA_BAD_DIRECTION (snd (incomingPermitted E t m)) = COUNTER_MEDIA_BAD_DIRECTION t
   \<and> outgoing E t m =
       (if mIsClosed t then (Inl TrackClosed, t)
        else if permits (direction (description t)) (msg_type (reclassified E t m)) Outgoing
        then outgoingPermitted E t (reclassified E t m)
        else (Inr False,
              t\<lparr>COUNTER_MEDIA_BAD_DIRECTION := COUNTER_MEDIA_BAD_DIRECTION t + 1\<rparr>))
   \<and> COUNTER_MEDIA_BAD_DIRECTION (snd (outgoingPermitted E t m)) = COUNTER_MEDIA_BAD_DIRECTION t
   \<and> (\<forall>d f. permits d Control f)
   \<and> (\<forall>d. permits d Data Incoming \<longleftrightarrow> d \<noteq> SendOnly \<and> d \<noteq> Inactive)
   \<and> (\<forall>d. permits d Data Outgoing \<longleftrightarrow> d \<noteq> RecvOnly \<and> d \<noteq> Inactive)"
proof -
  have a: "incoming E t (Some m) =
     (if permits (direction (description t)) (msg_type m) Incoming
      then incomingPermitted E t m
      else (Inr (), t\<lparr>COUNTER_MEDIA_BAD_DIRECTION := COUNTER_MEDIA_BAD_DIRECTION t + 1\<rparr>))"
    by (simp add: incoming_def Let_def gate_incoming description_def)
  have b: "outgoing E t m =
       (if mIsClosed t then (Inl TrackClosed, t)
        else if permits (direction (description t)) (msg_type (reclassified E t m)) Outgoing
        then outgoingPermitted E t (reclassified E t m)
        else (Inr False,
              t\<lparr>COUNTER_MEDIA_BAD_DIRECTION := COUNTER_MEDIA_BAD_DIRECTION t + 1\<rparr>))"
    by (simp add: outgoing_def Let_def gate_outgoing description_def)
  have c: "\<forall>d. permits d Data Incoming \<longleftrightarrow> d \<noteq> SendOnly \<and> d \<noteq> Inactive"
  proof
    fix d show "permits d Data Incoming \<longleftrightarrow> d \<noteq> SendOnly \<and> d \<noteq> Inactive"
      by (cases d) simp_all
  qed
  have d: "\<forall>d. permits d Data Outgoing \<longleftrightarrow> d \<noteq> RecvOnly \<and> d \<noteq> Inactive"
  proof
    fix d show "permits d Data Outgoing \<longleftrightarrow> d \<noteq> RecvOnly \<and> d \<noteq> Inactive"
      by (cases d) simp_all
  qed
  from a b c d show ?thesis
    using incomingPermitted_frame [of E t m] outgoingPermitted_frame [of E t m] by simp
qed

text \<open>
  A Data and a Control packet coming in to a SendOnly track; a Data packet and an RTCP
  packet typed as Data going out of a RecvOnly track with no handler.
\<close>

theorem direction_gate_matches_table_witness:
  "incoming sample_env (sample_track\<lparr>mMediaDescription := sample_media\<lparr>direction := SendOnly\<rparr>\<rparr>)
       (Some (pkt 1))
     = (Inr (), sample_track\<lparr>mMediaDescription := sample_media\<lparr>direction := SendOnly\<rparr>,
                             COUNTER_MEDIA_BAD_DIRECTION := 1\<rparr>)
   \<and> incoming sample_env
        (sample_track\<lparr>mMediaDescription := sample_media\<lparr>direction := SendOnly\<rparr>\<rparr>)
        (Some sample_rtcp)
     = incomingPermitted sample_env
        (sample_track\<lparr>mMediaDescription := sample_media\<lparr>direction := SendOnly\<rparr>\<rparr>) sample_rtcp
   \<and> outgoing sample_env
        (sample_track\<lparr>mMediaDescription := sample_media\<lparr>direction := RecvOnly\<rparr>\<rparr>) (pkt 1)
     = (Inr False, sample_track\<lparr>mMediaDescription := sample_media\<lparr>direction := RecvOnly\<rparr>,
                                COUNTER_MEDIA_BAD_DIRECTION := 1\<rparr>)
   \<and> outgoing sample_env
        (sample_track\<lparr>mMediaDescription := sample_media\<lparr>direction := RecvOnly\<rparr>\<rparr>)
        (sample_rtcp\<lparr>msg_type := Data\<rparr>)
     = outgoingPermitted sample_env
        (sample_track\<lparr>mMediaDescription := sample_media\<lparr>direction := RecvOnly\<rparr>\<rparr>) sample_rtcp"
proof -
  let ?so = "sample_track\<lparr>mMediaDescription := sample_media\<lparr>direction := SendOnly\<rparr>\<rparr>"
  let ?ro = "sample_track\<lparr>mMediaDescription := sample_media\<lparr>direction := RecvOnly\<rparr>\<rparr>"
  have r: "reclassified sample_env ?ro (pkt 1) = pkt 1"
    "reclassified sample_env ?ro (sample_rtcp\<lparr>msg_type := Data\<rparr>) = sample_rtcp"
    using sample_track_fields sample_IsRtcp_values
    by (simp_all add: reclassified_def getMediaHandler_def sample_env_def sample_rtcp_def)
  have k: "msg_type (pkt 1) = Data" "msg_type sample_rtcp = Control"
    by (simp_all add: pkt_def sample_rtcp_def)
  show ?thesis
    using direction_gate_matches_table [of sample_env ?so "pkt 1"]
      direction_gate_matches_table [of sample_env ?so sample_rtcp]
      direction_gate_matches_table [of sample_env ?ro "pkt 1"]
      direction_gate_matches_table [of sample_env ?ro "sample_rtcp\<lparr>msg_type := Data\<rparr>"]
      r k sample_track_fields
    by (simp add: description_def)
qed

section \<open>The maximum message size\<close>

text \<open>
  C8. \<open>maxMessageSize\<close> is the configured mtu minus the fixed overhead when the
  configuration supplies an mtu, and the default mtu minus the fixed overhead otherwise
  (no mtu configured, or the peer connection gone); the fixed overhead is the sum of the
  RTP fixed header (12), the UDP header (8) and the IPv6 header (40). The subtraction is
  that of \<^verbatim>\<open>size_t\<close>: below 60 it wraps around.
\<close>

theorem maxMessageSize_overhead:
  "maxMessageSize E t =
     (case configuredMtu t of
        Some v \<Rightarrow> v - fixedOverhead
      | None \<Rightarrow> DEFAULT_MTU E - fixedOverhead)
   \<and> fixedOverhead = 12 + 8 + 40"
  by (simp add: maxMessageSize_def configuredMtu_def fixedOverhead_def rtpFixedHeaderSize_def
      udpHeaderSize_def ipv6HeaderSize_def split: option.splits)

text \<open>With mtu 1400, with no mtu, with no peer connection, and with mtu 10.\<close>

theorem maxMessageSize_overhead_witness:
  "maxMessageSize sample_env (sample_track\<lparr>mPeerConnection := Some \<lparr>mtu = Some 1400\<rparr>\<rparr>) = 1340
   \<and> maxMessageSize sample_env (sample_track\<lparr>mPeerConnection := Some \<lparr>mtu = None\<rparr>\<rparr>) = 1220
   \<and> maxMessageSize sample_env sample_track = 1220
   \<and> maxMessageSize sample_env (sample_track\<lparr>mPeerConnection := Some \<lparr>mtu = Some 10\<rparr>\<rparr>)
       = 18446744073709551566"
  using maxMessageSize_overhead
          [of sample_env "sample_track\<lparr>mPeerConnection := Some \<lparr>mtu = Some 1400\<rparr>\<rparr>"]
        maxMessageSize_overhead
          [of sample_env "sample_track\<lparr>mPeerConnection := Some \<lparr>mtu = None\<rparr>\<rparr>"]
        maxMessageSize_overhead [of sample_env sample_track]
        maxMessageSize_overhead
          [of sample_env "sample_track\<lparr>mPeerConnection := Some \<lparr>mtu = Some 10\<rparr>\<rparr>"]
  by (simp add: configuredMtu_def sample_track_eq [THEN arg_cong, of mPeerConnection]
      sample_env_def [THEN arg_cong, of DEFAULT_MTU] fixedOverhead_def rtpFixedHeaderSize_def
      udpHeaderSize_def ipv6HeaderSize_def)

section \<open>Replacing the description\<close>

text \<open>
  C5. \<open>setDescription\<close> with a description whose mid differs from the track's fails
  with \<open>ConfigurationMismatch\<close> and leaves the track as it was: \<open>description\<close> still
  yields the prior description, and the id of the mid extension is the prior one.
\<close>

theorem setDescription_mismatch:
  "mid desc \<noteq> mid (description t) \<Longrightarrow>
     setDescription t desc = (Inl ConfigurationMismatch, t)
     \<and> description (snd (setDescription t desc)) = description t
     \<and> mSdesMidExtId (snd (setDescription t desc)) = mSdesMidExtId t"
  by (simp add: setDescription_def description_def)

text \<open>A description with mid 1 and direction Inactive, offered to the track of mid 0.\<close>

theorem setDescription_mismatch_witness:
  "mid (sample_media\<lparr>mid := ''1'', direction := Inactive\<rparr>) \<noteq> mid (description sample_track)
   \<and> setDescription sample_track (sample_media\<lparr>mid := ''1'', direction := Inactive\<rparr>)
       = (Inl ConfigurationMismatch, sample_track)
   \<and> direction (description (snd (setDescription sample_track
        (sample_media\<lparr>mid := ''1'', direction := Inactive\<rparr>)))) = SendRecv"
proof -
  have h: "mid (sample_media\<lparr>mid := ''1'', direction := Inactive\<rparr>)
             \<noteq> mid (description sample_track)"
    by (simp add: description_def sample_track_eq sample_media_def)
  have d: "direction (description sample_track) = SendRecv"
    by (simp add: description_def sample_track_eq sample_media_def)
  from setDescription_mismatch [OF h] h d show ?thesis by simp
qed

section \<open>Closing the track\<close>

lemma setDescription_frame:
  "mIsClosed (snd (setDescription t d)) = mIsClosed t
   \<and> closedEvents (snd (setDescription t d)) = closedEvents t"
  by (simp add: setDescription_def notifyHandler_def closedEvents_def
      split: option.splits)

lemma receive_frame:
  "mIsClosed (snd (receive t)) = mIsClosed t
   \<and> closedEvents (snd (receive t)) = closedEvents t"
  by (simp add: receive_def closedEvents_def split: option.splits prod.splits)

lemma peek_frame:
  "mIsClosed (snd (peek t)) = mIsClosed t
   \<and> closedEvents (snd (peek t)) = closedEvents t"
  by (simp add: peek_def closedEvents_def split: option.splits)

lemma open_track_frame:
  "mIsClosed (open_track t tr) = mIsClosed t
   \<and> closedEvents (open_track t tr) = closedEvents t"
  by (simp add: open_track_def triggerOpen_def closedEvents_def Let_def)

lemma setMediaHandler_frame:
  "mIsClosed (setMediaHandler t h) = mIsClosed t
   \<and> closedEvents (setMediaHandler t h) = closedEvents t"
  by (simp add: setMediaHandler_def closedEvents_def Let_def split: option.splits)

lemma incoming_frame:
  "mIsClosed (snd (incoming E t m)) = mIsClosed t
   \<and> closedEvents (snd (incoming E t m)) = closedEvents t"
  using incomingPermitted_frame
  by (simp add: incoming_def Let_def closedEvents_def split: option.splits)

lemma outgoing_frame:
  "mIsClosed (snd (outgoing E t m)) = mIsClosed t
   \<and> closedEvents (snd (outgoing E t m)) = closedEvents t"
  using outgoingPermitted_frame
  by (simp add: outgoing_def Let_def closedEvents_def)

lemma close_closed:
  "mIsClosed (close t)
   \<and> closedEvents (close t) = closedEvents t + (if mIsClosed t then 0 else 1)"
  by (simp add: close_def Let_def resetCallbacks_def setMediaHandler_def triggerClosed_def
      closedEvents_def)

lemma step_closed:
  "mIsClosed (step E t x) = (mIsClosed t \<or> x = OpClose)
   \<and> closedEvents (step E t x) =
       closedEvents t + (if \<not> mIsClosed t \<and> x = OpClose then 1 else 0)"
proof (cases x)
  case (OpSetDescription d)
  then show ?thesis using setDescription_frame [of t d] by simp
next
  case OpClose
  then show ?thesis using close_closed [of t] by simp
next
  case OpReceive
  then show ?thesis using receive_frame [of t] by simp
next
  case OpPeek
  then show ?thesis using peek_frame [of t] by simp
next
  case (OpOpen tr)
  then show ?thesis using open_track_frame [of t tr] by simp
next
  case (OpIncoming m)
  then show ?thesis using incoming_frame [of E t m] by simp
next
  case (OpOutgoing m)
  then show ?thesis using outgoing_frame [of E t m] by simp
next
  case (OpSetMediaHandler h)
  then show ?thesis using setMediaHandler_frame [of t h] by simp
qed

lemma run_closed:
  "mIsClosed (run E t xs) = (mIsClosed t \<or> OpClose \<in> set xs)
   \<and> closedEvents (run E t xs) =
       closedEvents t + (if \<not> mIsClosed t \<and> OpClose \<in> set xs then 1 else 0)"
proof (induction xs arbitrary: t)
  case Nil
  show ?case by (simp add: run_def)
next
  case (Cons x xs)
  have r: "run E t (x # xs) = run E (step E t x) xs"
    by (simp add: run_def)
  show ?case
    unfolding r using Cons.IH [of "step E t x"] step_closed [of E t x] by auto
qed

lemma close_twice: "close (close t) = close t"
  by (simp add: close_def Let_def resetCallbacks_def setMediaHandler_def triggerClosed_def)

text \<open>
  C4. \<open>close\<close> is idempotent. A second \<open>close\<close> changes nothing. Over any sequence
  of calls to the track, with any number of calls to \<open>close\<close> among them, the "closed"
  event fires exactly once if the track was open and \<open>close\<close> is called at all, and
  not otherwise: it fires at the first transition of the closed flag. After \<open>close\<close>,
  and whatever is called on the track afterwards, \<open>outgoing\<close> fails with \<open>TrackClosed\<close>.
\<close>

theorem close_idempotent:
  "close (close t) = close t
   \<and> closedEvents (run E t xs) =
       closedEvents t + (if \<not> mIsClosed t \<and> OpClose \<in> set xs then 1 else 0)
   \<and> closedEvents (close t) = closedEvents t + (if mIsClosed t then 0 else 1)
   \<and> outgoing E (run E (close t) xs) m = (Inl TrackClosed, run E (close t) xs)"
proof -
  have "mIsClosed (run E (close t) xs)"
    using run_closed [of E "close t" xs] close_closed [of t] by simp
  then have "outgoing E (run E (close t) xs) m = (Inl TrackClosed, run E (close t) xs)"
    by (simp add: outgoing_def)
  then show ?thesis
    using close_twice [of t] run_closed [of E t xs] close_closed [of t] by simp
qed

text \<open>
  Three calls to \<open>close\<close> among five calls on the concrete track, and a send after the
  track has been closed and then given a transport.
\<close>

theorem close_idempotent_witness:
  "closedEvents (run sample_env sample_track
       [OpClose, OpIncoming (Some sample_rtcp), OpClose, OpSetMediaHandler None, OpClose]) = 1
   \<and> closedEvents (close sample_track) = 1
   \<and> close (close sample_track) = close sample_track
   \<and> fst (outgoing sample_env
        (run sample_env (close sample_track) [OpOpen (Some \<lparr>sendMedia = \<lambda>m. True\<rparr>), OpClose])
        sample_rtp) = Inl TrackClosed"
proof -
  have c: "closedEvents sample_track = 0" "\<not> mIsClosed sample_track"
    by (simp_all add: closedEvents_def sample_track_eq)
  show ?thesis
    using close_idempotent [of sample_track sample_env
        "[OpClose, OpIncoming (Some sample_rtcp), OpClose, OpSetMediaHandler None, OpClose]"
        sample_rtp]
      close_idempotent [of sample_track sample_env
        "[OpOpen (Some \<lparr>sendMedia = \<lambda>m. True\<rparr>), OpClose]" sample_rtp]
      c
    by simp
qed

section \<open>Admission of a batch to the queue\<close>

lemma admit_step:
  "\<not> queue_full (mRecvQueue t) \<Longrightarrow>
     admit t (x # xs) =
       admit (t\<lparr>mRecvQueue := snd (queue_push (mRecvQueue t) x),
                events := events t
                  @ [EvAvailable (queue_size (snd (queue_push (mRecvQueue t) x)))]\<rparr>) xs"
  by (simp add: Let_def triggerAvailable_def)

lemma admit_counter:
  "COUNTER_QUEUE_FULL (admit t xs) = COUNTER_QUEUE_FULL t
   \<or> COUNTER_QUEUE_FULL (admit t xs) = COUNTER_QUEUE_FULL t + 1"
proof (induction xs arbitrary: t)
  case Nil
  show ?case by simp
next
  case (Cons x xs)
  show ?case
  proof (cases "queue_full (mRecvQueue t)")
    case True
    then show ?thesis by simp
  next
    case False
    let ?t1 = "t\<lparr>mRecvQueue := snd (queue_push (mRecvQueue t) x),
                   events := events t
                     @ [EvAvailable (queue_size (snd (queue_push (mRecvQueue t) x)))]\<rparr>"
    have "COUNTER_QUEUE_FULL ?t1 = COUNTER_QUEUE_FULL t" by simp
    with Cons.IH [of ?t1] admit_step [OF False, of x xs] show ?thesis by simp
  qed
qed

lemma admit_abandon:
  "COUNTER_QUEUE_FULL (admit t xs) \<noteq> COUNTER_QUEUE_FULL t \<Longrightarrow>
     admit t (xs @ rest) = admit t xs"
proof (induction xs arbitrary: t)
  case Nil
  then show ?case by simp
next
  case (Cons x xs)
  show ?case
  proof (cases "queue_full (mRecvQueue t)")
    case True
    then show ?thesis by simp
  next
    case False
    let ?t1 = "t\<lparr>mRecvQueue := snd (queue_push (mRecvQueue t) x),
                   events := events t
                     @ [EvAvailable (queue_size (snd (queue_push (mRecvQueue t) x)))]\<rparr>"
    have s1: "admit t (x # xs) = admit ?t1 xs"
      by (rule admit_step [OF False])
    have s2: "admit t ((x # xs) @ rest) = admit ?t1 (xs @ rest)"
      using admit_step [OF False, of x "xs @ rest"] by simp
    have "COUNTER_QUEUE_FULL (admit ?t1 xs) \<noteq> COUNTER_QUEUE_FULL ?t1"
      using Cons.prems s1 by simp
    then have "admit ?t1 (xs @ rest) = admit ?t1 xs"
      by (rule Cons.IH)
    with s1 s2 show ?thesis by simp
  qed
qed

lemma queue_push_admitted:
  "fst (queue_push q x) \<Longrightarrow>
     items (snd (queue_push q x)) = items q @ [x]
     \<and> queue_size (snd (queue_push q x)) = queue_size q + 1"
  by (simp add: queue_push_def queue_size_def split: if_splits)

lemma admit_one_fits:
  assumes "items (mRecvQueue t) = []" and "accumulated (mRecvQueue t) = 0"
    and "capacity (mRecvQueue t) = weight (mRecvQueue t) x" and "0 < weight (mRecvQueue t) x"
  shows "admit t (x # y # rest) =
           t\<lparr>mRecvQueue := (mRecvQueue t)\<lparr>items := [x], accumulated := weight (mRecvQueue t) x\<rparr>,
             events := events t @ [EvAvailable 1],
             COUNTER_QUEUE_FULL := COUNTER_QUEUE_FULL t + 1\<rparr>"
  using assms
  by (simp add: Let_def queue_full_def queue_push_def queue_size_def triggerAvailable_def)

text \<open>
  What holds of the loop. In \<open>incoming\<close> the batch that the transform chain yields (the
  packet itself when no handler is attached) goes through \<open>admit\<close>. When the queue
  reports that it is full, the full-queue counter goes up by one and the loop returns,
  so nothing else of the track changes. A packet met while the queue is not full is
  pushed and fires the "available" event with the item count of the queue after the
  push; when the push admits the packet, that count is the former count plus one. Once
  the counter has moved in a batch it has moved by exactly one, and the track is the
  same for every continuation of the batch. For an empty queue whose capacity is the
  weight of the first item (a positive weight), a batch of two or more items admits the
  first, drops the second and attempts no third.
\<close>

lemma admit_stops_when_full:
  "(getMediaHandler t = None \<longrightarrow> incomingPermitted E t m = (Inr (), admit t [m]))
   \<and> (getMediaHandler t = Some h \<and> incomingChain h [m] = (batch, now)
        \<and> sendNow E t now = (Inr u, t')
        \<longrightarrow> incomingPermitted E t m = (Inr (), admit t' batch))
   \<and> (queue_full (mRecvQueue t) \<longrightarrow>
        admit t (x # xs) = t\<lparr>COUNTER_QUEUE_FULL := COUNTER_QUEUE_FULL t + 1\<rparr>)
   \<and> (\<not> queue_full (mRecvQueue t) \<longrightarrow>
        admit t (x # xs) =
          admit (t\<lparr>mRecvQueue := snd (queue_push (mRecvQueue t) x),
                   events := events t
                     @ [EvAvailable (queue_size (snd (queue_push (mRecvQueue t) x)))]\<rparr>) xs)
   \<and> (fst (queue_push (mRecvQueue t) x) \<longrightarrow>
        items (snd (queue_push (mRecvQueue t) x)) = items (mRecvQueue t) @ [x]
        \<and> queue_size (snd (queue_push (mRecvQueue t) x)) = queue_size (mRecvQueue t) + 1)
   \<and> (COUNTER_QUEUE_FULL (admit t xs) \<noteq> COUNTER_QUEUE_FULL t \<longrightarrow>
        COUNTER_QUEUE_FULL (admit t xs) = COUNTER_QUEUE_FULL t + 1
        \<and> admit t (xs @ rest) = admit t xs)
   \<and> (items (mRecvQueue t) = [] \<and> accumulated (mRecvQueue t) = 0
        \<and> capacity (mRecvQueue t) = weight (mRecvQueue t) x \<and> 0 < weight (mRecvQueue t) x
        \<longrightarrow> admit t (x # y # rest) =
              t\<lparr>mRecvQueue := (mRecvQueue t)
                   \<lparr>items := [x], accumulated := weight (mRecvQueue t) x\<rparr>,
                events := events t @ [EvAvailable 1],
                COUNTER_QUEUE_FULL := COUNTER_QUEUE_FULL t + 1\<rparr>)"
proof -
  have a: "getMediaHandler t = None \<longrightarrow> incomingPermitted E t m = (Inr (), admit t [m])"
    by (simp add: incomingPermitted_def)
  have b: "getMediaHandler t = Some h \<and> incomingChain h [m] = (batch, now)
        \<and> sendNow E t now = (Inr u, t')
        \<longrightarrow> incomingPermitted E t m = (Inr (), admit t' batch)"
    by (simp add: incomingPermitted_def)
  have c: "queue_full (mRecvQueue t) \<longrightarrow>
        admit t (x # xs) = t\<lparr>COUNTER_QUEUE_FULL := COUNTER_QUEUE_FULL t + 1\<rparr>"
    by simp
  have d: "COUNTER_QUEUE_FULL (admit t xs) \<noteq> COUNTER_QUEUE_FULL t \<longrightarrow>
        COUNTER_QUEUE_FULL (admit t xs) = COUNTER_QUEUE_FULL t + 1
        \<and> admit t (xs @ rest) = admit t xs"
    using admit_counter [of t xs] admit_abandon [of t xs rest] by blast
  show ?thesis
    using a b c d admit_step [of t x xs] queue_push_admitted [of "mRecvQueue t" x]
      admit_one_fits [of t x y rest]
    by blast
qed

text \<open>
  The concrete track has capacity 3; a handler turns the incoming packet into three
  packets of three bytes each.
\<close>

lemma admit_stops_when_full_example:
  "incoming sample_env (sample_track\<lparr>mMediaHandler := Some tripling\<rparr>) (Some (pkt 0))
     = (Inr (),
        sample_track
          \<lparr>mMediaHandler := Some tripling,
           mRecvQueue := (mRecvQueue sample_track)\<lparr>items := [pkt 1], accumulated := 3\<rparr>,
           events := [EvAvailable 1],
           COUNTER_QUEUE_FULL := 1\<rparr>)
   \<and> admit sample_track [pkt 1, pkt 2, pkt 3] = admit sample_track [pkt 1, pkt 2]
   \<and> admit sample_track [pkt 1, pkt 2] = admit sample_track [pkt 1, pkt 2, pkt 3, pkt 4]"
proof -
  let ?t = "sample_track\<lparr>mMediaHandler := Some tripling\<rparr>"
  have q: "items (mRecvQueue ?t) = []" "accumulated (mRecvQueue ?t) = 0"
    "capacity (mRecvQueue ?t) = weight (mRecvQueue ?t) (pkt 1)"
    "0 < weight (mRecvQueue ?t) (pkt 1)"
    "items (mRecvQueue sample_track) = []" "accumulated (mRecvQueue sample_track) = 0"
    "capacity (mRecvQueue sample_track) = weight (mRecvQueue sample_track) (pkt 1)"
    "0 < weight (mRecvQueue sample_track) (pkt 1)"
    "weight (mRecvQueue sample_track) (pkt 1) = 3"
    "events sample_track = []" "COUNTER_QUEUE_FULL sample_track = 0"
    by (simp_all add: sample_track_eq Queue_def pkt_def)
  have h: "getMediaHandler ?t = Some tripling"
    "incomingChain tripling [pkt 0] = ([pkt 1, pkt 2, pkt 3], [])"
    "sendNow sample_env ?t [] = (Inr (), ?t)"
    by (simp_all add: getMediaHandler_def tripling_def)
  have p: "incoming sample_env ?t (Some (pkt 0)) = incomingPermitted sample_env ?t (pkt 0)"
    by (simp add: incoming_def Let_def sample_track_eq sample_media_def)
  have i: "incomingPermitted sample_env ?t (pkt 0) = (Inr (), admit ?t [pkt 1, pkt 2, pkt 3])"
    using admit_stops_when_full [of ?t sample_env "pkt 0" tripling "[pkt 1, pkt 2, pkt 3]"
        "[]" "()" ?t] h
    by simp
  have e: "admit ?t [pkt 1, pkt 2, pkt 3] =
        ?t\<lparr>mRecvQueue := (mRecvQueue ?t)\<lparr>items := [pkt 1], accumulated := 3\<rparr>,
           events := [EvAvailable 1], COUNTER_QUEUE_FULL := 1\<rparr>"
    using admit_stops_when_full [of ?t sample_env "pkt 0" tripling "[]" "[]" "()" ?t
        "pkt 1" "[]" "[pkt 3]" "pkt 2"] q
    by simp
  have f2: "admit sample_track [pkt 1, pkt 2] =
        sample_track\<lparr>mRecvQueue := (mRecvQueue sample_track)\<lparr>items := [pkt 1], accumulated := 3\<rparr>,
           events := [EvAvailable 1], COUNTER_QUEUE_FULL := 1\<rparr>"
    using admit_stops_when_full [of sample_track sample_env "pkt 0" tripling "[]" "[]" "()"
        sample_track "pkt 1" "[]" "[]" "pkt 2"] q
    by simp
  have n: "COUNTER_QUEUE_FULL (admit sample_track [pkt 1, pkt 2])
             \<noteq> COUNTER_QUEUE_FULL sample_track"
    using f2 q by simp
  have g: "admit sample_track ([pkt 1, pkt 2] @ [pkt 3]) = admit sample_track [pkt 1, pkt 2]"
    "admit sample_track ([pkt 1, pkt 2] @ [pkt 3, pkt 4]) = admit sample_track [pkt 1, pkt 2]"
    using admit_stops_when_full [of sample_track sample_env "pkt 0" tripling "[]" "[]" "()"
        sample_track "pkt 1" "[pkt 1, pkt 2]" "[pkt 3]" "pkt 2"]
      admit_stops_when_full [of sample_track sample_env "pkt 0" tripling "[]" "[]" "()"
        sample_track "pkt 1" "[pkt 1, pkt 2]" "[pkt 3, pkt 4]" "pkt 2"] n
    by blast+
  show ?thesis
    using p i e g by simp
qed

text \<open>
  A push can refuse a packet while the queue does not report full: the packet is heavier
  than the room that is left. The loop does not look at the result of the push, so it
  fires the event with the unchanged item count and goes on.
\<close>

lemma push_refused_while_not_full:
  "accumulated q < capacity q \<Longrightarrow> capacity q < accumulated q + weight q x \<Longrightarrow>
     \<not> queue_full q \<and> \<not> fst (queue_push q x)"
  by (simp add: queue_full_def queue_push_def)

lemma admit_refused_push:
  assumes "\<not> queue_full (mRecvQueue t)" and "\<not> fst (queue_push (mRecvQueue t) x)"
  shows "admit t (x # xs) =
           admit (t\<lparr>events := events t @ [EvAvailable (queue_size (mRecvQueue t))]\<rparr>) xs"
proof -
  from assms(2) have "snd (queue_push (mRecvQueue t) x) = mRecvQueue t"
    by (simp add: queue_push_def split: if_splits)
  with admit_step [OF assms(1), of x xs] show ?thesis by simp
qed

text \<open>
  C6 says that admission stops at the first failure: the full-queue counter goes up and
  no later packet of the batch is attempted. On the concrete track (capacity 3) a handler
  yields a batch of packets of two, two and one bytes. The first is admitted. The second
  meets a queue that holds two bytes and does not report full, and the push refuses it:
  the counter stays 0, the "available" event fires again with the item count 1, and the
  loop goes on to the third packet, which is admitted. The same refusal, not counted and
  followed by the event, happens when the two packets of two bytes come in one after the
  other with no handler attached.
\<close>

theorem admit_ignores_refused_push:
  "incoming sample_env (sample_track\<lparr>mMediaHandler := Some splitting\<rparr>) (Some (pkt 0))
     = (Inr (),
        sample_track
          \<lparr>mMediaHandler := Some splitting,
           mRecvQueue := (mRecvQueue sample_track)
             \<lparr>items := [data_pkt [1, 1], data_pkt [3]], accumulated := 3\<rparr>,
           events := [EvAvailable 1, EvAvailable 1, EvAvailable 2]\<rparr>)
   \<and> COUNTER_QUEUE_FULL
        (snd (incoming sample_env (sample_track\<lparr>mMediaHandler := Some splitting\<rparr>)
               (Some (pkt 0)))) = 0
   \<and> \<not> queue_full ((mRecvQueue sample_track)\<lparr>items := [data_pkt [1, 1]], accumulated := 2\<rparr>)
   \<and> \<not> fst (queue_push
               ((mRecvQueue sample_track)\<lparr>items := [data_pkt [1, 1]], accumulated := 2\<rparr>)
               (data_pkt [2, 2]))
   \<and> run sample_env sample_track
         [OpIncoming (Some (data_pkt [1, 1])), OpIncoming (Some (data_pkt [2, 2]))]
       = sample_track
           \<lparr>mRecvQueue := (mRecvQueue sample_track)
              \<lparr>items := [data_pkt [1, 1]], accumulated := 2\<rparr>,
            events := [EvAvailable 1, EvAvailable 1]\<rparr>"
proof -
  let ?t = "sample_track\<lparr>mMediaHandler := Some splitting\<rparr>"
  have p: "incoming sample_env ?t (Some (pkt 0)) = incomingPermitted sample_env ?t (pkt 0)"
    by (simp add: incoming_def Let_def sample_track_eq sample_media_def)
  have i: "incomingPermitted sample_env ?t (pkt 0)
             = (Inr (), admit ?t [data_pkt [1, 1], data_pkt [2, 2], data_pkt [3]])"
    by (simp add: incomingPermitted_def getMediaHandler_def splitting_def del: admit.simps)
  have a: "admit ?t [data_pkt [1, 1], data_pkt [2, 2], data_pkt [3]] =
        sample_track
          \<lparr>mMediaHandler := Some splitting,
           mRecvQueue := (mRecvQueue sample_track)
             \<lparr>items := [data_pkt [1, 1], data_pkt [3]], accumulated := 3\<rparr>,
           events := [EvAvailable 1, EvAvailable 1, EvAvailable 2]\<rparr>"
    by (simp add: sample_track_eq Queue_def queue_full_def queue_push_def queue_size_def
        triggerAvailable_def data_pkt_def Let_def)
  have c: "COUNTER_QUEUE_FULL sample_track = 0"
    by (simp add: sample_track_eq)
  have q: "\<not> queue_full ((mRecvQueue sample_track)\<lparr>items := [data_pkt [1, 1]], accumulated := 2\<rparr>)"
    "\<not> fst (queue_push
               ((mRecvQueue sample_track)\<lparr>items := [data_pkt [1, 1]], accumulated := 2\<rparr>)
               (data_pkt [2, 2]))"
    by (simp_all add: sample_track_eq Queue_def queue_full_def queue_push_def data_pkt_def)
  have r: "run sample_env sample_track
         [OpIncoming (Some (data_pkt [1, 1])), OpIncoming (Some (data_pkt [2, 2]))]
       = sample_track
           \<lparr>mRecvQueue := (mRecvQueue sample_track)
              \<lparr>items := [data_pkt [1, 1]], accumulated := 2\<rparr>,
            events := [EvAvailable 1, EvAvailable 1]\<rparr>"
    by (simp add: run_def incoming_def incomingPermitted_def getMediaHandler_def Let_def
        sample_track_eq sample_media_def Queue_def queue_full_def queue_push_def
        queue_size_def triggerAvailable_def data_pkt_def)
  show ?thesis
    using p i a c q r by simp
qed

section \<open>The mapping of the mid extension\<close>

lemma find_upt_least:
  assumes "find P [a..<b] = Some i"
  shows "a \<le> i \<and> i < b \<and> P i \<and> (\<forall>j. a \<le> j \<and> j < i \<longrightarrow> \<not> P j)"
proof -
  from assms obtain k where k: "k < length [a..<b]" "P ([a..<b] ! k)" "i = [a..<b] ! k"
    and least: "\<forall>j<k. \<not> P ([a..<b] ! j)"
    by (auto simp: find_Some_iff)
  from k have kb: "k < b - a" and i: "i = a + k" by simp_all
  have "\<not> P j" if "a \<le> j" "j < i" for j
  proof -
    from that i have "j - a < k" by arith
    with least have "\<not> P ([a..<b] ! (j - a))" by blast
    moreover have "[a..<b] ! (j - a) = j" using that i kb by simp
    ultimately show ?thesis by simp
  qed
  with k i kb show ?thesis by auto
qed

lemma nextExtId_lowest:
  assumes "nextExtId d = Some i"
  shows "1 \<le> i \<and> i \<le> 14 \<and> i \<notin> snd ` set (extmap d)
         \<and> (\<forall>j. 1 \<le> j \<and> j < i \<longrightarrow> j \<in> snd ` set (extmap d))"
  using find_upt_least [of "\<lambda>i. i \<notin> snd ` set (extmap d)" 1 15 i] assms
  by (simp add: nextExtId_def)

lemma filter_key_absent:
  "map_of al k = None \<Longrightarrow> filter (\<lambda>e. fst e = k) al = []"
  by (induction al) (auto split: if_splits)

lemma filter_key_once:
  "distinct (map fst al) \<Longrightarrow> map_of al k = Some v \<Longrightarrow>
     length (filter (\<lambda>e. fst e = k) al) = 1"
proof (induction al)
  case Nil
  then show ?case by simp
next
  case (Cons e al)
  show ?case
  proof (cases "fst e = k")
    case True
    with Cons.prems have "k \<notin> fst ` set al" by auto
    then have "map_of al k = None" by (simp add: map_of_eq_None_iff)
    then have "filter (\<lambda>e. fst e = k) al = []" by (rule filter_key_absent)
    with True show ?thesis by simp
  next
    case False
    with Cons show ?thesis by (cases e) auto
  qed
qed

lemma notifyHandler_frame:
  "mMediaDescription (notifyHandler t) = mMediaDescription t"
  "mSdesMidExtId (notifyHandler t) = mSdesMidExtId t"
  "messageCallback (notifyHandler t) = messageCallback t"
  by (simp_all add: notifyHandler_def split: option.splits)

lemma setDescription_mapped:
  assumes "setDescription t desc = (Inr u, t')"
  shows "sdesMidMapped desc t'"
proof (cases "findExtId desc sdesMidExtUri")
  case (Some i)
  with assms have t': "t' = notifyHandler (t\<lparr>mSdesMidExtId := Some i, mMediaDescription := desc\<rparr>)"
    by (auto simp: setDescription_def split: if_splits)
  have d: "description t' = desc" and s: "mSdesMidExtId t' = Some i"
    by (simp_all add: t' description_def notifyHandler_frame)
  have o: "distinct (map fst (extmap desc)) \<longrightarrow>
      length (filter (\<lambda>e. fst e = sdesMidExtUri) (extmap desc)) = 1"
    using Some filter_key_once [of "extmap desc" sdesMidExtUri i] by (simp add: findExtId_def)
  show ?thesis
    using Some d s o by (simp add: sdesMidMapped_def)
next
  case None
  with assms obtain i where n: "nextExtId desc = Some i"
    and t': "t' = notifyHandler (t\<lparr>mSdesMidExtId := Some i,
                 mMediaDescription := addExtMap desc (i, sdesMidExtUri)\<rparr>)"
    by (auto simp: setDescription_def split: if_splits option.splits)
  have d: "description t' = addExtMap desc (i, sdesMidExtUri)" and s: "mSdesMidExtId t' = Some i"
    by (simp_all add: t' description_def notifyHandler_frame)
  have f: "findExtId (addExtMap desc (i, sdesMidExtUri)) sdesMidExtUri = Some i"
    by (simp add: findExtId_def addExtMap_def update_conv')
  have o: "distinct (map fst (extmap desc)) \<longrightarrow>
      distinct (map fst (extmap (addExtMap desc (i, sdesMidExtUri))))
      \<and> length (filter (\<lambda>e. fst e = sdesMidExtUri)
           (extmap (addExtMap desc (i, sdesMidExtUri)))) = 1"
  proof
    assume dd: "distinct (map fst (extmap desc))"
    then have d2: "distinct (map fst (extmap (addExtMap desc (i, sdesMidExtUri))))"
      by (simp add: addExtMap_def distinct_update)
    from filter_key_once [OF d2, of sdesMidExtUri i] f d2
    show "distinct (map fst (extmap (addExtMap desc (i, sdesMidExtUri))))
      \<and> length (filter (\<lambda>e. fst e = sdesMidExtUri)
           (extmap (addExtMap desc (i, sdesMidExtUri)))) = 1"
      by (simp add: findExtId_def)
  qed
  show ?thesis
    using None d s f o nextExtId_lowest [OF n] by (simp add: sdesMidMapped_def)
qed

lemma Track_setDescription:
  assumes "Track E pc desc = (Inr u, t')"
  obtains t1 where "setDescription (initial_track E pc) desc = (Inr (), t1)"
    and "t' = (if direction (mMediaDescription t1) = SendOnly
               then t1\<lparr>messageCallback := Some (\<lambda>v. [])\<rparr> else t1)"
  using assms by (auto simp: Track_def split: prod.splits sum.splits)

text \<open>
  C7. After a successful \<open>setDescription\<close>, the one in the constructor included, the
  table of the stored description maps the URI of the mid extension, to exactly one id,
  and that id is the one the track remembers. An id that the given description maps the
  URI to is reused and the description is stored unchanged; otherwise the id is the
  lowest one in 1..14 that no entry of the given table uses, and the description stored
  is the given one with that entry added: the track that \<open>setDescription\<close> returns has
  the description and the mapping together. A table that holds each URI in one entry
  still does afterwards, with exactly one entry for the mid.
\<close>

theorem setDescription_maps_sdes_mid:
  assumes "setDescription t desc = (Inr u, t') \<or> Track E pc desc = (Inr u, t')"
  shows "findExtId (description t') sdesMidExtUri = mSdesMidExtId t'
     \<and> (\<exists>!i. findExtId (description t') sdesMidExtUri = Some i)
     \<and> (case findExtId desc sdesMidExtUri of
          Some i \<Rightarrow> mSdesMidExtId t' = Some i \<and> description t' = desc
        | None \<Rightarrow>
            (\<exists>i. mSdesMidExtId t' = Some i \<and> 1 \<le> i \<and> i \<le> 14
                 \<and> i \<notin> snd ` set (extmap desc)
                 \<and> (\<forall>j. 1 \<le> j \<and> j < i \<longrightarrow> j \<in> snd ` set (extmap desc))
                 \<and> description t' = addExtMap desc (i, sdesMidExtUri)))
     \<and> (distinct (map fst (extmap desc)) \<longrightarrow>
          distinct (map fst (extmap (description t')))
          \<and> length (filter (\<lambda>e. fst e = sdesMidExtUri) (extmap (description t'))) = 1)"
proof -
  have "sdesMidMapped desc t'"
    using assms
  proof
    assume "setDescription t desc = (Inr u, t')"
    then show ?thesis by (rule setDescription_mapped)
  next
    assume "Track E pc desc = (Inr u, t')"
    then obtain t1 where s: "setDescription (initial_track E pc) desc = (Inr (), t1)"
      and t': "t' = (if direction (mMediaDescription t1) = SendOnly
                 then t1\<lparr>messageCallback := Some (\<lambda>v. [])\<rparr> else t1)"
      by (rule Track_setDescription)
    from s have m: "sdesMidMapped desc t1" by (rule setDescription_mapped)
    have e: "description t' = description t1" "mSdesMidExtId t' = mSdesMidExtId t1"
      by (simp_all add: t' description_def)
    show ?thesis
      unfolding sdesMidMapped_def e using m [unfolded sdesMidMapped_def] .
  qed
  then show ?thesis unfolding sdesMidMapped_def .
qed

lemma Track_sample_direction:
  "Track sample_env None (sample_media\<lparr>direction := d\<rparr>) =
     (Inr (),
      \<lparr>mPeerConnection = None,
       mMediaDescription = sample_media\<lparr>direction := d, extmap := [(sdesMidExtUri, 1)]\<rparr>,
       mSdesMidExtId = Some 1,
       mIsClosed = False,
       mMediaHandler = None,
       mDtlsSrtpTransport = None,
       mRecvQueue = Queue 3 (\<lambda>m. length (bytes m)),
       messageCallback = (if d = SendOnly then Some (\<lambda>v. []) else None),
       openCallback = False,
       closedCallback = False,
       availableCallback = False,
       events = [],
       sent = [],
       COUNTER_MEDIA_BAD_DIRECTION = 0,
       COUNTER_QUEUE_FULL = 0\<rparr>)"
proof -
  let ?d = "sample_media\<lparr>direction := d\<rparr>"
  have f: "findExtId ?d sdesMidExtUri = None"
    by (simp add: findExtId_def sample_media_def)
  have n: "nextExtId ?d = Some 1"
    by (simp add: nextExtId_def sample_media_def upt_rec)
  have "setDescription (initial_track sample_env None) ?d =
      (Inr (), (initial_track sample_env None)
         \<lparr>mSdesMidExtId := Some 1,
            mMediaDescription := addExtMap ?d (1, sdesMidExtUri)\<rparr>)"
    using f n
    by (simp add: setDescription_def notifyHandler_def getMediaHandler_def
        initial_track_def sample_env_def)
  then show ?thesis
    by (simp add: Track_def initial_track_def addExtMap_def sample_env_def sample_media_def)
qed

lemma setDescription_sample_gap:
  "setDescription sample_track sample_media_gap =
     (Inr (), sample_track
        \<lparr>mSdesMidExtId := Some 3,
           mMediaDescription := sample_media_gap
             \<lparr>extmap := [(''urn:a'', 1), (''urn:b'', 2), (''urn:c'', 4), (sdesMidExtUri, 3)]\<rparr>\<rparr>)"
proof -
  have f: "findExtId sample_media_gap sdesMidExtUri = None"
    by (simp add: findExtId_def sample_media_gap_def sdesMidExtUri_def)
  have n: "nextExtId sample_media_gap = Some 3"
    by (simp add: nextExtId_def sample_media_gap_def upt_rec)
  have m: "mid sample_media_gap = mid (mMediaDescription sample_track)"
    "getMediaHandler (sample_track\<lparr>mSdesMidExtId := Some 3,
        mMediaDescription := addExtMap sample_media_gap (3, sdesMidExtUri)\<rparr>) = None"
    by (simp_all add: sample_media_gap_def sample_track_eq getMediaHandler_def)
  have a: "addExtMap sample_media_gap (3, sdesMidExtUri) = sample_media_gap
             \<lparr>extmap := [(''urn:a'', 1), (''urn:b'', 2), (''urn:c'', 4), (sdesMidExtUri, 3)]\<rparr>"
    by (simp add: addExtMap_def sample_media_gap_def sdesMidExtUri_def)
  show ?thesis
    using f n m by (simp add: setDescription_def notifyHandler_def a)
qed

lemma setDescription_sample_mapped:
  "setDescription sample_track sample_media_mapped =
     (Inr (), sample_track\<lparr>mSdesMidExtId := Some 5, mMediaDescription := sample_media_mapped\<rparr>)"
proof -
  have f: "findExtId sample_media_mapped sdesMidExtUri = Some 5"
    by (simp add: findExtId_def sample_media_mapped_def sdesMidExtUri_def)
  have m: "mid sample_media_mapped = mid (mMediaDescription sample_track)"
    "getMediaHandler (sample_track\<lparr>mSdesMidExtId := Some 5,
        mMediaDescription := sample_media_mapped\<rparr>) = None"
    by (simp_all add: sample_media_mapped_def sample_track_eq getMediaHandler_def)
  show ?thesis
    using f m by (simp add: setDescription_def notifyHandler_def)
qed

text \<open>
  The constructor on an empty table (id 1); a table that uses 1, 2 and 4 (id 3); a
  table that maps the mid to 5 already (5 is kept).
\<close>

theorem setDescription_maps_sdes_mid_witness:
  "Track sample_env None sample_media = (Inr (), sample_track)
   \<and> findExtId (description sample_track) sdesMidExtUri = Some 1
   \<and> length (filter (\<lambda>e. fst e = sdesMidExtUri) (extmap (description sample_track))) = 1
   \<and> fst (setDescription sample_track sample_media_gap) = Inr ()
   \<and> findExtId (description (snd (setDescription sample_track sample_media_gap))) sdesMidExtUri
       = Some 3
   \<and> length (filter (\<lambda>e. fst e = sdesMidExtUri)
        (extmap (description (snd (setDescription sample_track sample_media_gap))))) = 1
   \<and> fst (setDescription sample_track sample_media_mapped) = Inr ()
   \<and> description (snd (setDescription sample_track sample_media_mapped)) = sample_media_mapped
   \<and> mSdesMidExtId (snd (setDescription sample_track sample_media_mapped)) = Some 5"
proof -
  let ?g = "snd (setDescription sample_track sample_media_gap)"
  let ?m = "snd (setDescription sample_track sample_media_mapped)"
  have c: "Track sample_env None sample_media = (Inr (), sample_track)"
    using Track_sample_direction [of SendRecv]
    by (simp add: sample_track_eq sample_media_def)
  have g: "setDescription sample_track sample_media_gap = (Inr (), ?g)"
    by (simp add: setDescription_sample_gap)
  have m: "setDescription sample_track sample_media_mapped = (Inr (), ?m)"
    by (simp add: setDescription_sample_mapped)
  have dist: "distinct (map fst (extmap sample_media))"
    "distinct (map fst (extmap sample_media_gap))"
    by (simp_all add: sample_media_def sample_media_gap_def)
  have ids: "mSdesMidExtId sample_track = Some 1"
    by (simp add: sample_track_eq)
  have idg: "mSdesMidExtId ?g = Some 3"
    by (simp add: setDescription_sample_gap)
  have fm: "findExtId sample_media_mapped sdesMidExtUri = Some 5"
    by (simp add: findExtId_def sample_media_mapped_def sdesMidExtUri_def)
  from setDescription_maps_sdes_mid [of undefined sample_media "()" sample_track sample_env None]
    c dist ids
  have 1: "findExtId (description sample_track) sdesMidExtUri = Some 1
     \<and> length (filter (\<lambda>e. fst e = sdesMidExtUri) (extmap (description sample_track))) = 1"
    by simp
  from setDescription_maps_sdes_mid [of sample_track sample_media_gap "()" ?g] g dist idg
  have 2: "findExtId (description ?g) sdesMidExtUri = Some 3
     \<and> length (filter (\<lambda>e. fst e = sdesMidExtUri) (extmap (description ?g))) = 1"
    by simp
  from setDescription_maps_sdes_mid [of sample_track sample_media_mapped "()" ?m] m fm
  have 3: "description ?m = sample_media_mapped \<and> mSdesMidExtId ?m = Some 5"
    by simp
  have fg: "fst (setDescription sample_track sample_media_gap) = Inr ()"
    "fst (setDescription sample_track sample_media_mapped) = Inr ()"
    by (simp_all add: setDescription_sample_gap setDescription_sample_mapped)
  from c fg 1 2 3 show ?thesis by simp
qed

section \<open>The default message callback of a send-only track\<close>

text \<open>
  C10. When the description given to the constructor has direction SendOnly, the track
  that the constructor leaves has a message callback, and that callback shows nothing
  of any message delivered to it; with any other direction the constructor installs no
  message callback. The track has the direction of the description, so an incoming
  Control packet passes the check of the direction and goes on to the chain and the
  queue, while an incoming Data packet is dropped there.
\<close>

theorem Track_sendonly_discards:
  assumes "Track E pc desc = (Inr u, t)"
  shows "(if direction desc = SendOnly
          then (\<exists>cb. messageCallback t = Some cb \<and> (\<forall>v. cb v = []))
          else messageCallback t = None)
     \<and> direction (description t) = direction desc
     \<and> (direction desc = SendOnly \<and> msg_type m = Control \<longrightarrow>
          incoming E t (Some m) = incomingPermitted E t m)
     \<and> (direction desc = SendOnly \<and> msg_type m \<noteq> Control \<longrightarrow>
          incoming E t (Some m) =
            (Inr (), t\<lparr>COUNTER_MEDIA_BAD_DIRECTION := COUNTER_MEDIA_BAD_DIRECTION t + 1\<rparr>))"
proof -
  from assms obtain t1 where s: "setDescription (initial_track E pc) desc = (Inr (), t1)"
    and t: "t = (if direction (mMediaDescription t1) = SendOnly
               then t1\<lparr>messageCallback := Some (\<lambda>v. [])\<rparr> else t1)"
    by (rule Track_setDescription)
  from s have d: "direction (mMediaDescription t1) = direction desc"
    and cb: "messageCallback t1 = None"
    by (auto simp: setDescription_def notifyHandler_frame addExtMap_def initial_track_def
        split: if_splits option.splits)
  have dt: "direction (mMediaDescription t) = direction desc"
    using d by (simp add: t)
  have "if direction desc = SendOnly
        then (\<exists>cb. messageCallback t = Some cb \<and> (\<forall>v. cb v = []))
        else messageCallback t = None"
    using d cb by (simp add: t)
  then show ?thesis
    using dt by (simp add: incoming_def Let_def description_def)
qed

text \<open>
  The concrete description with direction SendOnly, and with SendRecv.
\<close>

theorem Track_sendonly_discards_witness:
  "fst (Track sample_env None (sample_media\<lparr>direction := SendOnly\<rparr>)) = Inr ()
   \<and> direction (sample_media\<lparr>direction := SendOnly\<rparr>) = SendOnly
   \<and> msg_type sample_rtcp = Control
   \<and> (\<exists>cb. messageCallback (snd (Track sample_env None (sample_media\<lparr>direction := SendOnly\<rparr>)))
              = Some cb \<and> (\<forall>v. cb v = []))
   \<and> incoming sample_env (snd (Track sample_env None (sample_media\<lparr>direction := SendOnly\<rparr>)))
        (Some sample_rtcp)
      = incomingPermitted sample_env
          (snd (Track sample_env None (sample_media\<lparr>direction := SendOnly\<rparr>))) sample_rtcp
   \<and> messageCallback (snd (Track sample_env None sample_media)) = None"
proof -
  let ?so = "sample_media\<lparr>direction := SendOnly\<rparr>"
  have f: "fst (Track sample_env None ?so) = Inr ()"
    "fst (Track sample_env None sample_media) = Inr ()"
    using Track_sample_direction [of SendOnly] Track_sample_direction [of SendRecv]
    by (simp_all add: sample_media_def)
  have c: "Track sample_env None ?so = (Inr (), snd (Track sample_env None ?so))"
    "Track sample_env None sample_media = (Inr (), snd (Track sample_env None sample_media))"
    using f by (simp_all add: prod_eq_iff)
  have k: "msg_type sample_rtcp = Control" "direction ?so = SendOnly"
    "direction sample_media \<noteq> SendOnly"
    by (simp_all add: sample_rtcp_def sample_media_def)
  show ?thesis
    using Track_sendonly_discards [OF c(1), of sample_rtcp]
      Track_sendonly_discards [OF c(2), of sample_rtcp] f k
    by simp
qed

section \<open>Tagging with the mid\<close>

text \<open>
  The body of the branch is entered only with fewer bytes than a fixed header, and then
  every path through it leaves the buffer: the extension block and the place of the
  insertion start at offset 12 or later. So \<open>tagWithMid\<close> never returns a packet other
  than the one it was given.
\<close>

lemma tagBody_short:
  "length bs < sizeof_RtpHeader \<Longrightarrow> tagBody m extId bs = None"
  by (cases bs)
     (simp_all add: tagBody_def header_extension_def header_getSize_def read16_def
       vector_insert_def sizeof_RtpHeader_def Let_def)

lemma tagWithMid_never_tags:
  "tagWithMid E t m = Inr m' \<Longrightarrow> m' = m"
  by (auto simp: tagWithMid_def tagBody_short split: if_splits option.splits)

lemma tagWithMid_result:
  "tagWithMid E t m = Inr m \<or> tagWithMid E t m = Inl MemoryFault"
  by (simp add: tagWithMid_def tagBody_short split: option.splits)

lemma extensionProfile_length:
  assumes "extensionProfile bs = Some p"
  shows "sizeof_RtpHeader + 2 \<le> length bs"
proof (cases bs)
  case Nil
  with assms show ?thesis by (simp add: extensionProfile_def header_extension_def)
next
  case (Cons b r)
  with assms show ?thesis
    by (simp add: extensionProfile_def header_extension_def header_getSize_def read16_def
        split: if_splits)
qed

text \<open>
  C9. \<open>tagWithMid\<close> returns the packet as it was given, byte for byte and with its
  type and marking, in each of three cases: the packet is an RTCP packet (the test the
  source makes is \<open>IsRtcp\<close> on the bytes); no id of the mid extension is configured in
  the track; the packet carries an extension block whose profile id is not \<open>0xBEDE\<close>.
\<close>

theorem tagWithMid_unchanged:
  assumes "IsRtcp E (bytes m) \<or> mSdesMidExtId t = None
           \<or> (\<exists>p. extensionProfile (bytes m) = Some p \<and> p \<noteq> 0xbede)"
  shows "tagWithMid E t m = Inr m"
proof -
  consider (rtcp) "IsRtcp E (bytes m)" | (noid) "mSdesMidExtId t = None"
    | (foreign) p where "extensionProfile (bytes m) = Some p" "p \<noteq> 0xbede"
    using assms by auto
  then show ?thesis
  proof cases
    case rtcp
    then show ?thesis by (simp add: tagWithMid_def)
  next
    case noid
    then show ?thesis by (simp add: tagWithMid_def)
  next
    case foreign
    from extensionProfile_length [OF foreign(1)]
    have "\<not> length (bytes m) < sizeof_RtpHeader" by simp
    then show ?thesis by (simp add: tagWithMid_def split: option.splits)
  qed
qed

lemma sample_profiles:
  "extensionProfile (bytes sample_rtp_foreign) = Some 0x1000"
  "extensionProfile (bytes sample_rtp_bede) = Some 0xbede"
  "extensionProfile (bytes sample_rtp) = None"
  by (simp_all add: extensionProfile_def header_extension_def header_getSize_def read16_def
      sample_rtp_foreign_def sample_rtp_bede_def sample_rtp_def sizeof_RtpHeader_def)

text \<open>
  An RTCP receiver report; an RTP packet on a track without an id for the mid; an RTP
  packet whose extension block has the profile \<open>0x1000\<close>.
\<close>

theorem tagWithMid_unchanged_witness:
  "IsRtcp sample_env (bytes sample_rtcp)
   \<and> tagWithMid sample_env sample_track sample_rtcp = Inr sample_rtcp
   \<and> tagWithMid sample_env (sample_track\<lparr>mSdesMidExtId := None\<rparr>) sample_rtp = Inr sample_rtp
   \<and> extensionProfile (bytes sample_rtp_foreign) = Some 0x1000
   \<and> tagWithMid sample_env sample_track sample_rtp_foreign = Inr sample_rtp_foreign"
proof -
  have r: "IsRtcp sample_env (bytes sample_rtcp)"
    using sample_IsRtcp_values by (simp add: sample_env_def)
  have n: "mSdesMidExtId (sample_track\<lparr>mSdesMidExtId := None\<rparr>) = None"
    by simp
  have f: "\<exists>p. extensionProfile (bytes sample_rtp_foreign) = Some p \<and> p \<noteq> 0xbede"
    using sample_profiles by simp
  show ?thesis
    using tagWithMid_unchanged [of sample_env sample_rtcp sample_track]
      tagWithMid_unchanged [of sample_env sample_rtp "sample_track\<lparr>mSdesMidExtId := None\<rparr>"]
      tagWithMid_unchanged [of sample_env sample_rtp_foreign sample_track]
      r n f sample_profiles
    by blast
qed

text \<open>
  C1 says that \<open>tagWithMid\<close> gives a Data packet with no extension block a block of
  profile \<open>0xBEDE\<close> with the mid as its one element and sets the extension flag, and
  that it appends the mid to a \<open>0xBEDE\<close> block that holds one element. The source
  enters the code that does so under \<^verbatim>\<open>message->size() < sizeof(RtpHeader)\<close>, which no
  packet with a full header satisfies. On the concrete track (mid \<open>0\<close>, id 1) the RTP
  packet without a block comes back unchanged, its extension flag still clear, and the
  packet with a \<open>0xBEDE\<close> block of one element comes back unchanged as well.
\<close>

theorem tagWithMid_leaves_packets_untagged:
  "\<not> IsRtcp sample_env (bytes sample_rtp)
   \<and> mSdesMidExtId sample_track = Some 1
   \<and> mid (description sample_track) = ''0''
   \<and> extensionProfile (bytes sample_rtp) = None
   \<and> tagWithMid sample_env sample_track sample_rtp = Inr sample_rtp
   \<and> header_extension (bytes sample_rtp) = Some False
   \<and> \<not> IsRtcp sample_env (bytes sample_rtp_bede)
   \<and> extensionProfile (bytes sample_rtp_bede) = Some 0xbede
   \<and> tagWithMid sample_env sample_track sample_rtp_bede = Inr sample_rtp_bede"
proof -
  have a: "\<not> IsRtcp sample_env (bytes sample_rtp)" "\<not> IsRtcp sample_env (bytes sample_rtp_bede)"
    by (simp_all add: sample_env_def sample_IsRtcp_def sample_rtp_def sample_rtp_bede_def)
  have b: "mSdesMidExtId sample_track = Some 1" "mid (description sample_track) = ''0''"
    by (simp_all add: sample_track_eq description_def sample_media_def)
  have c: "\<not> length (bytes sample_rtp) < sizeof_RtpHeader"
    "\<not> length (bytes sample_rtp_bede) < sizeof_RtpHeader"
    by (simp_all add: sample_rtp_def sample_rtp_bede_def sizeof_RtpHeader_def)
  have d: "tagWithMid sample_env sample_track sample_rtp = Inr sample_rtp"
    "tagWithMid sample_env sample_track sample_rtp_bede = Inr sample_rtp_bede"
    using a b c by (simp_all add: tagWithMid_def)
  have e: "header_extension (bytes sample_rtp) = Some False"
    by (simp add: header_extension_def sample_rtp_def)
  show ?thesis
    using a b d e sample_profiles by simp
qed

section \<open>Looking at the front of the queue\<close>

lemma sample_track_one_eq:
  "sample_track_one =
     sample_track\<lparr>mRecvQueue := (mRecvQueue sample_track)\<lparr>items := [pkt 7], accumulated := 3\<rparr>,
                  events := [EvAvailable 1]\<rparr>"
  by (simp add: sample_track_one_def incoming_def incomingPermitted_def Let_def
      sample_track_eq sample_media_def getMediaHandler_def Queue_def queue_full_def
      queue_push_def queue_size_def triggerAvailable_def pkt_def)

text \<open>
  \<open>peek\<close> leaves the accumulated amount and the item count of the queue as they are,
  and it leaves a Control packet at the front untouched, so that \<open>receive\<close> then yields
  what \<open>peek\<close> yielded.
\<close>

lemma peek_keeps_amount_and_size:
  "availableAmount (snd (peek t)) = availableAmount t
   \<and> queue_size (mRecvQueue (snd (peek t))) = queue_size (mRecvQueue t)"
  by (simp add: peek_def queue_peek_def availableAmount_def queue_amount_def queue_size_def
      split: list.splits)

lemma peek_control_unchanged:
  "queue_peek (mRecvQueue t) = Some m \<Longrightarrow> msg_type m = Control \<Longrightarrow>
     snd (peek t) = t \<and> fst (receive (snd (peek t))) = fst (peek t)"
  by (simp add: peek_def receive_def queue_peek_def queue_pop_def split: list.splits)

text \<open>
  With any other packet at the front, the \<open>receive\<close> that follows a \<open>peek\<close> yields no
  bytes, whatever \<open>peek\<close> yielded.
\<close>

lemma peek_data_then_receive:
  "queue_peek (mRecvQueue t) = Some m \<Longrightarrow> msg_type m \<noteq> Control \<Longrightarrow>
     fst (peek t) = Some (bytes m) \<and> fst (receive (snd (peek t))) = Some []"
  by (simp add: peek_def receive_def queue_peek_def queue_pop_def to_variant_def
      moved_from_def split: list.splits)

text \<open>
  C2 says that \<open>peek\<close> leaves the front packet unchanged, the bytes of a Data packet
  included, so that a following \<open>receive\<close> returns what \<open>peek\<close> returned. On the
  concrete track that holds the one Data packet \<open>7 7 7\<close>, \<open>receive\<close> alone returns those
  bytes and leaves the amount 0. \<open>peek\<close> returns them too, but it moves them out of the
  message that stays at the front of the queue: the \<open>receive\<close> that follows returns no
  bytes, and since the weight of the emptied message is 0 the amount stays 3 in an
  empty queue.
\<close>

theorem peek_moves_data_out:
  "queue_peek (mRecvQueue sample_track_one) = Some (pkt 7)
   \<and> fst (receive sample_track_one) = Some [7, 7, 7]
   \<and> fst (peek sample_track_one) = Some [7, 7, 7]
   \<and> queue_peek (mRecvQueue (snd (peek sample_track_one))) = Some ((pkt 7)\<lparr>bytes := []\<rparr>)
   \<and> fst (receive (snd (peek sample_track_one))) = Some []
   \<and> availableAmount (snd (receive sample_track_one)) = 0
   \<and> availableAmount (snd (receive (snd (peek sample_track_one)))) = 3
   \<and> queue_size (mRecvQueue (snd (receive (snd (peek sample_track_one))))) = 0"
  by (simp add: sample_track_one_eq sample_track_eq Queue_def peek_def receive_def
      queue_peek_def queue_pop_def to_variant_def moved_from_def availableAmount_def
      queue_amount_def queue_size_def pkt_def)

end
